theory Spec2Isabelle
  imports Complex_Main
begin

section \<open>JavaScript values\<close>

text \<open>
  A JavaScript number is modelled as a real, the exact value of the double the program
  holds; there is no infinity. \<open>undefined\<close> is \<open>None\<close>, and the one place where the
  source can produce \<open>NaN\<close> from finite operands (a remainder by zero) returns \<open>None\<close>.
  Arithmetic is exact, with two exceptions where the difference between reals and
  doubles decides an outcome and is written out: the auto-blink check, where the
  division \<open>Date.now() / 1000\<close> and the literal \<open>0.15\<close> are rounded (\<open>to_double\<close> below),
  and the smoothing of a held rotation, where the sign of a zero matters (\<open>double0\<close>
  below).
\<close>

text \<open>\<open>v || d\<close> for a value that is a number or \<open>undefined\<close>: zero and \<open>undefined\<close> are falsy.\<close>

definition falsy :: "real option \<Rightarrow> bool" where
  "falsy v = (case v of None \<Rightarrow> True | Some r \<Rightarrow> r = 0)"

definition num_or :: "real option \<Rightarrow> real \<Rightarrow> real" where
  "num_or v d = (case v of None \<Rightarrow> d | Some r \<Rightarrow> if r = 0 then d else r)"

text \<open>\<open>xs[i]\<close>: an index past the end reads \<open>undefined\<close>.\<close>

definition at_index :: "'a list \<Rightarrow> nat \<Rightarrow> 'a option" where
  "at_index xs i = (if i < length xs then Some (xs ! i) else None)"

text \<open>\<open>String.prototype.toLowerCase\<close> on the ASCII letters.\<close>

definition toLowerCase_char :: "char \<Rightarrow> char" where
  "toLowerCase_char c =
     (let n = (of_char c :: nat) in if 65 \<le> n \<and> n \<le> 90 then char_of (n + 32) else c)"

definition toLowerCase :: "string \<Rightarrow> string" where
  "toLowerCase s = map toLowerCase_char s"

text \<open>
  \<open>Math.atan2(y, x)\<close>, by quadrant; at the origin JavaScript returns zero.
\<close>

definition atan2 :: "real \<Rightarrow> real \<Rightarrow> real" where
  "atan2 y x =
     (if 0 < x then arctan (y / x)
      else if x < 0 then (if 0 \<le> y then arctan (y / x) + pi else arctan (y / x) - pi)
      else if 0 < y then pi / 2
      else if y < 0 then - (pi / 2)
      else 0)"

text \<open>
  The remainder \<open>a % b\<close>: the quotient is truncated towards zero, so the result has the
  sign of \<open>a\<close>. A zero divisor gives \<open>NaN\<close>, which is \<open>None\<close> here.
\<close>

definition js_trunc :: "real \<Rightarrow> int" where
  "js_trunc r = (if r < 0 then \<lceil>r\<rceil> else \<lfloor>r\<rfloor>)"

definition js_rem :: "real \<Rightarrow> real \<Rightarrow> real option" where
  "js_rem a b = (if b = 0 then None else Some (a - b * of_int (js_trunc (a / b))))"

text \<open>
  The binary64 number nearest to a real, ties to even, for magnitudes in the normal
  range: \<open>ulp\<close> is the spacing of the doubles in the binade of \<open>x\<close>. It is what a literal
  denotes and what a division returns.
\<close>

definition round_half_even :: "real \<Rightarrow> int" where
  "round_half_even x =
     (let f = \<lfloor>x\<rfloor>; d = x - of_int f
      in if d < 1 / 2 then f else if 1 / 2 < d then f + 1 else if even f then f else f + 1)"

definition to_double :: "real \<Rightarrow> real" where
  "to_double x =
     (if x = 0 then 0
      else (let ulp = 2 powr (of_int \<lfloor>log 2 \<bar>x\<bar>\<rfloor> - 52)
            in ulp * of_int (round_half_even (x / ulp))))"

text \<open>\<open>THREE.MathUtils.degToRad\<close>.\<close>

definition degToRad :: "real \<Rightarrow> real" where
  "degToRad d = d * (pi / 180)"

text \<open>The helper at the end of useMediaPipeTracking.js.\<close>

definition lerp :: "real \<Rightarrow> real \<Rightarrow> real \<Rightarrow> real" where
  "lerp a b t = a + (b - a) * t"

section \<open>Data model\<close>

text \<open>
  \<open>vec3\<close> is an object \<open>{x, y, z}\<close> (a landmark, the head rotation, the face
  position), \<open>vec2\<close> an object \<open>{x, y}\<close> (a pose joint), and \<open>'a sides\<close> an object
  \<open>{left, right}\<close>.
\<close>

record vec3 =
  vx :: real
  vy :: real
  vz :: real

record vec2 =
  ux :: real
  uy :: real

record 'a sides =
  left :: 'a
  right :: 'a

record face_obj =
  rotation :: vec3
  position :: vec3
  blendShapes :: "string \<rightharpoonup> real"

record pose_obj =
  shoulders :: "vec2 sides"
  elbows :: "vec2 sides"
  wrists :: "vec2 sides"

record hand_obj =
  landmarks :: "vec3 list option"
  detected :: bool

text \<open>
  \<open>predict\<close> copies the tracking data with a spread, \<open>{ ...trackingData }\<close>: the copy is a
  new top-level object whose \<open>face\<close>, \<open>pose\<close> and \<open>hands\<close> properties hold the same
  references as the original. The objects behind \<open>face\<close> and \<open>hands\<close> are then mutated
  through the copy, so they live in a store and the top-level object holds their
  addresses. The top-level object itself is a value: the old one is only read, the new
  one is local until it is published. Objects that are only ever replaced as a whole
  (\<open>rotation\<close>, \<open>blendShapes\<close>, \<open>pose\<close>, a hand entry) or reached through one owner only
  are stored inline in their owner.
\<close>

type_synonym addr = nat

record tracking_data =
  face :: addr
  pose :: pose_obj
  hands :: addr

record store =
  face_heap :: "addr \<Rightarrow> face_obj"
  hands_heap :: "addr \<Rightarrow> hand_obj sides"

record detection_status =
  faceDetected :: bool
  poseDetected :: bool
  handsDetected :: "bool sides"

record settings =
  faceTrackingEnabled :: bool
  bodyTrackingEnabled :: bool
  handTrackingEnabled :: bool
  mirrorMode :: bool
  trackingSmoothing :: real
  trackingSpeed :: real
  lipSyncEnabled :: bool
  lipSyncSensitivity :: real
  blinkEnabled :: bool
  blinkInterval :: "real option"
  idleAnimationEnabled :: bool

text \<open>
  What a detector does on one tick: \<open>detectForVideo\<close> throws or returns its results.
  A landmarker reference that is still \<open>null\<close> is \<open>None\<close>. A blend-shape entry is its
  \<open>categories\<close> list of (\<open>categoryName\<close>, \<open>score\<close>); a handedness entry is the list of
  its categories' names.
\<close>

datatype 'r detection = Throws | Returns 'r

record face_results =
  faceLandmarks :: "vec3 list list option"
  faceBlendshapes :: "(string \<times> real) list list option"

record pose_results =
  pose_landmarks :: "vec3 list list option"

record hand_results =
  hand_landmarks :: "vec3 list list option"
  handedness :: "string list list"

record tick_input =
  isTracking :: bool
  videoReadyState :: "nat option"
  faceLandmarker :: "face_results detection option"
  poseLandmarker :: "pose_results detection option"
  handLandmarker :: "hand_results detection option"

datatype error = DetectionFailure | TypeError

text \<open>
  The state of the hook between ticks: the store, the two published React states, the
  number of errors logged by the \<open>catch\<close> and the number of animation frames requested.
\<close>

record hook_state =
  mem :: store
  trackingData :: tracking_data
  detectionStatus :: detection_status
  errors_logged :: nat
  frames_requested :: nat

text \<open>The variables of the \<open>try\<close> block of \<open>predict\<close>.\<close>

record locals =
  l_mem :: store
  newTrackingData :: tracking_data
  newDetectionStatus :: detection_status

section \<open>The tracking loop: predict\<close>

definition zero3 :: vec3 where
  "zero3 = \<lparr>vx = 0, vy = 0, vz = 0\<rparr>"

definition zero2 :: vec2 where
  "zero2 = \<lparr>ux = 0, uy = 0\<rparr>"

definition no_hand :: hand_obj where
  "no_hand = \<lparr>landmarks = Some [], detected = False\<rparr>"

definition no_detection :: detection_status where
  "no_detection =
     \<lparr>faceDetected = False, poseDetected = False,
      handsDetected = \<lparr>left = False, right = False\<rparr>\<rparr>"

text \<open>The initial values of the two \<open>useState\<close> calls; both objects sit at address 0.\<close>

definition initial_state :: hook_state where
  "initial_state =
     \<lparr>mem = \<lparr>face_heap = (\<lambda>_. \<lparr>rotation = zero3, position = zero3, blendShapes = Map.empty\<rparr>),
             hands_heap = (\<lambda>_. \<lparr>left = no_hand, right = no_hand\<rparr>)\<rparr>,
      trackingData =
        \<lparr>face = 0,
         pose = \<lparr>shoulders = \<lparr>left = zero2, right = zero2\<rparr>,
                 elbows = \<lparr>left = zero2, right = zero2\<rparr>,
                 wrists = \<lparr>left = zero2, right = zero2\<rparr>\<rparr>,
         hands = 0\<rparr>,
      detectionStatus = no_detection,
      errors_logged = 0,
      frames_requested = 0\<rparr>"

text \<open>Writes through a reference.\<close>

definition update_face :: "addr \<Rightarrow> (face_obj \<Rightarrow> face_obj) \<Rightarrow> store \<Rightarrow> store" where
  "update_face a f h = h\<lparr>face_heap := (face_heap h)(a := f (face_heap h a))\<rparr>"

definition update_hands :: "addr \<Rightarrow> (hand_obj sides \<Rightarrow> hand_obj sides) \<Rightarrow> store \<Rightarrow> store" where
  "update_hands a f h = h\<lparr>hands_heap := (hands_heap h)(a := f (hands_heap h a))\<rparr>"

text \<open>
  \<open>obj[key] = v\<close> on a \<open>{left, right}\<close> object; any other key creates a property that
  nothing reads.
\<close>

definition set_key :: "string \<Rightarrow> 'a \<Rightarrow> 'a sides \<Rightarrow> 'a sides" where
  "set_key k v ob =
     (if k = ''left'' then ob\<lparr>left := v\<rparr> else if k = ''right'' then ob\<lparr>right := v\<rparr> else ob)"

text \<open>The \<open>forEach\<close> that fills \<open>blendShapes\<close>: a later category overwrites an earlier one.\<close>

definition collect_blendShapes :: "(string \<times> real) list \<Rightarrow> (string \<rightharpoonup> real)" where
  "collect_blendShapes categories =
     fold (\<lambda>category blendShapes. blendShapes(fst category \<mapsto> snd category)) categories Map.empty"

text \<open>
  Each step of the \<open>try\<close> block returns the exception it threw, if any, and the
  variables as they were at that moment: a write to the store made before a throw stays.
\<close>

definition face_tracking :: "settings \<Rightarrow> tick_input \<Rightarrow> locals \<Rightarrow> error option \<times> locals" where
  "face_tracking s inp l =
     (if faceTrackingEnabled s then
        (case faceLandmarker inp of
           None \<Rightarrow> (None, l)
         | Some Throws \<Rightarrow> (Some DetectionFailure, l)
         | Some (Returns faceResults) \<Rightarrow>
             (case faceLandmarks faceResults of
                None \<Rightarrow> (None, l)
              | Some [] \<Rightarrow> (None, l)
              | Some (lms # _) \<Rightarrow>
                  (let l1 = l\<lparr>newDetectionStatus := (newDetectionStatus l)\<lparr>faceDetected := True\<rparr>\<rparr> in
                   case at_index lms 33 of
                     None \<Rightarrow> (Some TypeError, l1)
                   | Some leftEye \<Rightarrow>
                   (case at_index lms 263 of
                     None \<Rightarrow> (Some TypeError, l1)
                   | Some rightEye \<Rightarrow>
                   (case at_index lms 1 of
                     None \<Rightarrow> (Some TypeError, l1)
                   | Some noseTip \<Rightarrow>
                       (let eyeCenter_y = (vy leftEye + vy rightEye) / 2;
                            yaw = (vx noseTip - 0.5) * 60;
                            pitch = (vy noseTip - eyeCenter_y) * 60;
                            roll = atan2 (vy rightEye - vy leftEye) (vx rightEye - vx leftEye)
                                     * (180 / pi);
                            raw = \<lparr>vx = (if mirrorMode s then - pitch else pitch),
                                   vy = (if mirrorMode s then - yaw else yaw),
                                   vz = (if mirrorMode s then - roll else roll)\<rparr>;
                            a = face (newTrackingData l1);
                            l2 = l1\<lparr>l_mem := update_face a (\<lambda>f. f\<lparr>rotation := raw\<rparr>) (l_mem l1)\<rparr>
                        in case faceBlendshapes faceResults of
                             None \<Rightarrow> (None, l2)
                           | Some [] \<Rightarrow> (None, l2)
                           | Some (categories # _) \<Rightarrow>
                               (None, l2\<lparr>l_mem := update_face a
                                         (\<lambda>f. f\<lparr>blendShapes := collect_blendShapes categories\<rparr>)
                                         (l_mem l2)\<rparr>)))))))
      else (None, l))"

definition joint :: "vec3 \<Rightarrow> vec2" where
  "joint p = \<lparr>ux = vx p, uy = vy p\<rparr>"

definition pose_tracking :: "settings \<Rightarrow> tick_input \<Rightarrow> locals \<Rightarrow> error option \<times> locals" where
  "pose_tracking s inp l =
     (if bodyTrackingEnabled s then
        (case poseLandmarker inp of
           None \<Rightarrow> (None, l)
         | Some Throws \<Rightarrow> (Some DetectionFailure, l)
         | Some (Returns poseResults) \<Rightarrow>
             (case pose_landmarks poseResults of
                None \<Rightarrow> (None, l)
              | Some [] \<Rightarrow> (None, l)
              | Some (p # _) \<Rightarrow>
                  (let l1 = l\<lparr>newDetectionStatus := (newDetectionStatus l)\<lparr>poseDetected := True\<rparr>\<rparr> in
                   case map (at_index p) [11, 12, 13, 14, 15, 16] of
                     [Some p11, Some p12, Some p13, Some p14, Some p15, Some p16] \<Rightarrow>
                       (None, l1\<lparr>newTrackingData := (newTrackingData l1)\<lparr>pose :=
                          \<lparr>shoulders = \<lparr>left = joint p11, right = joint p12\<rparr>,
                           elbows = \<lparr>left = joint p13, right = joint p14\<rparr>,
                           wrists = \<lparr>left = joint p15, right = joint p16\<rparr>\<rparr>\<rparr>\<rparr>)
                   | _ \<Rightarrow> (Some TypeError, l1))))
      else (None, l))"

text \<open>
  The \<open>forEach\<close> over \<open>handResults.handedness\<close>, with its index. An entry with no
  category makes \<open>handedness[0].categoryName\<close> throw; the hands written by the earlier
  iterations stay written.
\<close>

fun hands_forEach :: "vec3 list list \<Rightarrow> string list list \<Rightarrow> nat \<Rightarrow> locals \<Rightarrow> error option \<times> locals" where
  "hands_forEach lss [] index l = (None, l)"
| "hands_forEach lss (hd_ness # rest) index l =
     (case hd_ness of
        [] \<Rightarrow> (Some TypeError, l)
      | categoryName # _ \<Rightarrow>
          (let hand = toLowerCase categoryName;
               l1 = l\<lparr>newDetectionStatus := (newDetectionStatus l)\<lparr>handsDetected :=
                        set_key hand True (handsDetected (newDetectionStatus l))\<rparr>\<rparr>;
               l2 = l1\<lparr>l_mem := update_hands (hands (newTrackingData l1))
                        (set_key hand \<lparr>landmarks = at_index lss index, detected = True\<rparr>)
                        (l_mem l1)\<rparr>
           in hands_forEach lss rest (Suc index) l2))"

definition hand_tracking :: "settings \<Rightarrow> tick_input \<Rightarrow> locals \<Rightarrow> error option \<times> locals" where
  "hand_tracking s inp l =
     (if handTrackingEnabled s then
        (case handLandmarker inp of
           None \<Rightarrow> (None, l)
         | Some Throws \<Rightarrow> (Some DetectionFailure, l)
         | Some (Returns handResults) \<Rightarrow>
             (case hand_landmarks handResults of
                None \<Rightarrow> (None, l)
              | Some [] \<Rightarrow> (None, l)
              | Some (ls # lss) \<Rightarrow> hands_forEach (ls # lss) (handedness handResults) 0 l))
      else (None, l))"

text \<open>
  The smoothing block. \<open>td\<close> is the \<open>trackingData\<close> of the closure, the previous frame;
  both it and \<open>newTrackingData\<close> reach the rotation through their \<open>face\<close> reference. The
  three assignments run one after the other.
\<close>

definition apply_smoothing :: "settings \<Rightarrow> tracking_data \<Rightarrow> locals \<Rightarrow> locals" where
  "apply_smoothing s td l =
     (if trackingSmoothing s > 0 then
        (let smooth = trackingSmoothing s;
             new = newTrackingData l;
             h0 = l_mem l;
             h1 = update_face (face new) (\<lambda>f. f\<lparr>rotation := (rotation f)\<lparr>vx :=
                    lerp (vx (rotation (face_heap h0 (face td))))
                         (vx (rotation (face_heap h0 (face new)))) (1 - smooth)\<rparr>\<rparr>) h0;
             h2 = update_face (face new) (\<lambda>f. f\<lparr>rotation := (rotation f)\<lparr>vy :=
                    lerp (vy (rotation (face_heap h1 (face td))))
                         (vy (rotation (face_heap h1 (face new)))) (1 - smooth)\<rparr>\<rparr>) h1;
             h3 = update_face (face new) (\<lambda>f. f\<lparr>rotation := (rotation f)\<lparr>vz :=
                    lerp (vz (rotation (face_heap h2 (face td))))
                         (vz (rotation (face_heap h2 (face new)))) (1 - smooth)\<rparr>\<rparr>) h2
         in l\<lparr>l_mem := h3\<rparr>)
      else l)"

definition and_then ::
  "(locals \<Rightarrow> error option \<times> locals) \<Rightarrow> (locals \<Rightarrow> error option \<times> locals) \<Rightarrow>
   locals \<Rightarrow> error option \<times> locals" where
  "and_then f g l = (case f l of (Some e, l') \<Rightarrow> (Some e, l') | (None, l') \<Rightarrow> g l')"

definition try_block :: "settings \<Rightarrow> tick_input \<Rightarrow> tracking_data \<Rightarrow> locals \<Rightarrow> error option \<times> locals" where
  "try_block s inp td =
     and_then (face_tracking s inp)
       (and_then (pose_tracking s inp)
         (and_then (hand_tracking s inp)
           (\<lambda>l. (None, apply_smoothing s td l))))"

definition request_frame :: "hook_state \<Rightarrow> hook_state" where
  "request_frame st = st\<lparr>frames_requested := Suc (frames_requested st)\<rparr>"

text \<open>
  One call of \<open>predict\<close>. When the block completes, \<open>setTrackingData\<close> and
  \<open>setDetectionStatus\<close> publish the new values; when it throws, the \<open>catch\<close> logs and
  publishes nothing. Either way the next frame is requested.
\<close>

definition predict :: "settings \<Rightarrow> tick_input \<Rightarrow> hook_state \<Rightarrow> hook_state" where
  "predict s inp st =
     (if isTracking inp then
        (case videoReadyState inp of
           None \<Rightarrow> request_frame st
         | Some readyState \<Rightarrow>
             if readyState < 2 then request_frame st
             else
               (case try_block s inp (trackingData st)
                       \<lparr>l_mem = mem st, newTrackingData = trackingData st,
                        newDetectionStatus = no_detection\<rparr> of
                  (None, l) \<Rightarrow>
                    request_frame (st\<lparr>mem := l_mem l, trackingData := newTrackingData l,
                                      detectionStatus := newDetectionStatus l\<rparr>)
                | (Some e, l) \<Rightarrow>
                    request_frame (st\<lparr>mem := l_mem l, errors_logged := Suc (errors_logged st)\<rparr>)))
      else request_frame st)"

subsection \<open>The smoothing assignment, with signed zeros\<close>

text \<open>
  A double is a real or the negative zero; \<open>Num 0\<close> is the positive zero. The three
  operations follow IEEE 754 in the sign they give a zero result. Rounding is not
  modelled here: on the operands this model is used for, a value interpolated with
  itself, no operation rounds (\<open>v - v\<close> is a zero, a zero times \<open>t\<close> is a zero, and \<open>v\<close>
  plus a zero is \<open>v\<close>).
\<close>

datatype double0 = NegZero | Num real

definition d_val :: "double0 \<Rightarrow> real" where
  "d_val a = (case a of NegZero \<Rightarrow> 0 | Num r \<Rightarrow> r)"

definition d_negative :: "double0 \<Rightarrow> bool" where
  "d_negative a = (case a of NegZero \<Rightarrow> True | Num r \<Rightarrow> r < 0)"

definition d_sub :: "double0 \<Rightarrow> double0 \<Rightarrow> double0" where
  "d_sub a b =
     (if d_val a - d_val b \<noteq> 0 then Num (d_val a - d_val b)
      else if a = NegZero \<and> b = Num 0 then NegZero else Num 0)"

definition d_mul :: "double0 \<Rightarrow> double0 \<Rightarrow> double0" where
  "d_mul a b =
     (if d_val a * d_val b \<noteq> 0 then Num (d_val a * d_val b)
      else if d_negative a \<noteq> d_negative b then NegZero else Num 0)"

definition d_add :: "double0 \<Rightarrow> double0 \<Rightarrow> double0" where
  "d_add a b =
     (if d_val a + d_val b \<noteq> 0 then Num (d_val a + d_val b)
      else if a = NegZero \<and> b = NegZero then NegZero else Num 0)"

text \<open>\<open>lerp\<close> on these numbers: \<open>a + (b - a) * t\<close>.\<close>

definition lerp_d :: "double0 \<Rightarrow> double0 \<Rightarrow> double0 \<Rightarrow> double0" where
  "lerp_d a b t = d_add a (d_mul (d_sub b a) t)"

text \<open>
  One axis of the smoothing block: under \<open>if (settings.trackingSmoothing > 0)\<close> the
  axis becomes \<open>lerp(previous, new, 1 - smooth)\<close>, otherwise it is left as it is.
\<close>

definition smooth_axis :: "double0 \<Rightarrow> double0 \<Rightarrow> double0 \<Rightarrow> double0" where
  "smooth_axis smooth previous new =
     (if 0 < d_val smooth then lerp_d previous new (d_sub (Num 1) smooth) else new)"

text \<open>What the published frame holds, read through its references.\<close>

definition published_face :: "hook_state \<Rightarrow> face_obj" where
  "published_face st = face_heap (mem st) (face (trackingData st))"

definition published_hands :: "hook_state \<Rightarrow> hand_obj sides" where
  "published_hands st = hands_heap (mem st) (hands (trackingData st))"

section \<open>The retarget applier: useVRMAnimation\<close>

text \<open>
  The rig is external. What the effect asks of it: whether \<open>vrm.humanoid\<close>,
  \<open>vrm.expressionManager\<close> and \<open>vrm.lookAt\<close> exist, and for which bone names
  \<open>getNormalizedBoneNode\<close> returns a node. What the effect does to it is the list of its
  writes, in the order of the source.
\<close>

record vrm_rig =
  has_humanoid :: bool
  bone_nodes :: "string set"
  has_expressionManager :: bool
  has_lookAt :: bool

record model_transform =
  modelPosition :: vec3
  modelScale :: real
  modelRotation :: real

datatype axis = AxisX | AxisY | AxisZ

datatype rig_write =
    ScenePosition real real real
  | SceneScale real
  | SceneRotationY real
  | BoneRotation string axis real
  | Expression string real
  | LookAtTarget axis real

definition apply_model_transform :: "model_transform \<Rightarrow> rig_write list" where
  "apply_model_transform mt =
     [ScenePosition (vx (modelPosition mt)) (vy (modelPosition mt)) (vz (modelPosition mt)),
      SceneScale (modelScale mt),
      SceneRotationY (degToRad (modelRotation mt))]"

definition head_rotation :: "vrm_rig \<Rightarrow> face_obj \<Rightarrow> settings \<Rightarrow> rig_write list" where
  "head_rotation vrm f s =
     (if has_humanoid vrm \<and> ''head'' \<in> bone_nodes vrm then
        [BoneRotation ''head'' AxisX (degToRad (vx (rotation f) * trackingSpeed s)),
         BoneRotation ''head'' AxisY (degToRad (vy (rotation f) * trackingSpeed s)),
         BoneRotation ''head'' AxisZ (degToRad (vz (rotation f) * trackingSpeed s))]
      else [])"

definition eye_blink :: "(string \<rightharpoonup> real) \<Rightarrow> settings \<Rightarrow> rig_write list" where
  "eye_blink bs s =
     (if blinkEnabled s then
        (let blinkLeft = num_or (bs ''eyeBlinkLeft'') 0;
             blinkRight = num_or (bs ''eyeBlinkRight'') 0
         in [Expression ''blinkLeft'' blinkLeft,
             Expression ''blinkRight'' blinkRight,
             Expression ''blink'' ((blinkLeft + blinkRight) / 2)])
      else [])"

definition mouthOpen :: "real \<Rightarrow> real \<Rightarrow> real \<Rightarrow> real" where
  "mouthOpen trackingMouth micMouth sensitivity = max trackingMouth micMouth * sensitivity"

definition lip_sync :: "(string \<rightharpoonup> real) \<Rightarrow> settings \<Rightarrow> real \<Rightarrow> rig_write list" where
  "lip_sync bs s micLevel =
     (if lipSyncEnabled s then
        (let trackingMouth = num_or (bs ''jawOpen'') 0;
             micMouth = num_or (Some micLevel) 0;
             mouthSmile = num_or (bs ''mouthSmileLeft'') 0 + num_or (bs ''mouthSmileRight'') 0
         in [Expression ''aa'' (mouthOpen trackingMouth micMouth (lipSyncSensitivity s)),
             Expression ''happy'' mouthSmile])
      else [])"

definition eyebrows :: "(string \<rightharpoonup> real) \<Rightarrow> rig_write list" where
  "eyebrows bs =
     (let browUp = num_or (bs ''browInnerUp'') 0;
          browDown = num_or (bs ''browDownLeft'') 0 + num_or (bs ''browDownRight'') 0
      in [Expression ''surprised'' browUp, Expression ''angry'' browDown])"

definition eye_look :: "vrm_rig \<Rightarrow> (string \<rightharpoonup> real) \<Rightarrow> rig_write list" where
  "eye_look vrm bs =
     (let eyeLookLeft = num_or (bs ''eyeLookInLeft'') 0;
          eyeLookRight = num_or (bs ''eyeLookInRight'') 0;
          eyeLookUp = num_or (bs ''eyeLookUpLeft'') 0;
          eyeLookDown = num_or (bs ''eyeLookDownLeft'') 0
      in if has_lookAt vrm then
           [LookAtTarget AxisX ((eyeLookRight - eyeLookLeft) * 2),
            LookAtTarget AxisY ((eyeLookUp - eyeLookDown) * 2)]
         else [])"

text \<open>
  The face block. \<open>trackingData.face\<close> and \<open>trackingData.face.blendShapes\<close> are objects,
  hence truthy, on every frame the hook publishes.
\<close>

definition apply_face :: "vrm_rig \<Rightarrow> face_obj \<Rightarrow> settings \<Rightarrow> real \<Rightarrow> rig_write list" where
  "apply_face vrm f s micLevel =
     (if faceTrackingEnabled s then
        head_rotation vrm f s @
        (if has_expressionManager vrm then
           eye_blink (blendShapes f) s @ lip_sync (blendShapes f) s micLevel @
           eyebrows (blendShapes f) @ eye_look vrm (blendShapes f)
         else [])
      else [])"

text \<open>The pose block: four bones, each written when the rig has it.\<close>

definition apply_pose :: "vrm_rig \<Rightarrow> pose_obj \<Rightarrow> settings \<Rightarrow> rig_write list" where
  "apply_pose vrm p s =
     (if bodyTrackingEnabled s \<and> has_humanoid vrm then
        (if ''leftUpperArm'' \<in> bone_nodes vrm then
           [BoneRotation ''leftUpperArm'' AxisZ
              (atan2 (uy (left (elbows p)) - uy (left (shoulders p)))
                     (ux (left (elbows p)) - ux (left (shoulders p))) - pi / 2)]
         else []) @
        (if ''rightUpperArm'' \<in> bone_nodes vrm then
           [BoneRotation ''rightUpperArm'' AxisZ
              (atan2 (uy (right (elbows p)) - uy (right (shoulders p)))
                     (ux (right (elbows p)) - ux (right (shoulders p))) - pi / 2)]
         else []) @
        (if ''leftLowerArm'' \<in> bone_nodes vrm then
           [BoneRotation ''leftLowerArm'' AxisZ
              (atan2 (uy (left (wrists p)) - uy (left (elbows p)))
                     (ux (left (wrists p)) - ux (left (elbows p))))]
         else []) @
        (if ''rightLowerArm'' \<in> bone_nodes vrm then
           [BoneRotation ''rightLowerArm'' AxisZ
              (atan2 (uy (right (wrists p)) - uy (right (elbows p)))
                     (ux (right (wrists p)) - ux (right (elbows p))))]
         else [])
      else [])"

text \<open>
  One hand of the hand block (the two copies in the source differ in the side and the
  bone name only). Reading \<open>.length\<close> of an \<open>undefined\<close> landmark sequence throws, and so
  does reading \<open>.y\<close> of a missing landmark 9.
\<close>

definition apply_hand :: "vrm_rig \<Rightarrow> string \<Rightarrow> hand_obj \<Rightarrow> rig_write list \<times> error option" where
  "apply_hand vrm bone h =
     (if detected h then
        (case landmarks h of
           None \<Rightarrow> ([], Some TypeError)
         | Some lms \<Rightarrow>
             if length lms > 0 then
               (if bone \<in> bone_nodes vrm then
                  (case at_index lms 0 of
                     None \<Rightarrow> ([], Some TypeError)
                   | Some wrist \<Rightarrow>
                       (case at_index lms 9 of
                          None \<Rightarrow> ([], Some TypeError)
                        | Some middleFinger \<Rightarrow>
                            ([BoneRotation bone AxisZ
                                (atan2 (vy middleFinger - vy wrist) (vx middleFinger - vx wrist))],
                             None)))
                else ([], None))
             else ([], None))
      else ([], None))"

definition apply_hands :: "vrm_rig \<Rightarrow> hand_obj sides \<Rightarrow> settings \<Rightarrow> rig_write list \<times> error option" where
  "apply_hands vrm hs s =
     (if handTrackingEnabled s \<and> has_humanoid vrm then
        (case apply_hand vrm ''leftHand'' (left hs) of
           (w, Some e) \<Rightarrow> (w, Some e)
         | (w, None) \<Rightarrow>
             (case apply_hand vrm ''rightHand'' (right hs) of (w', r) \<Rightarrow> (w @ w', r)))
      else ([], None))"

text \<open>
  The auto-blink block. \<open>now\<close> is \<open>Date.now()\<close>, a count of milliseconds since the
  epoch, and \<open>time\<close> the double that \<open>Date.now() / 1000\<close> evaluates to. \<open>Math.floor\<close> and
  \<open>%\<close> are exact on doubles; the literal \<open>0.15\<close> is the double nearest to it.
  \<open>settings.blinkInterval || 4\<close> is the interval in effect. A comparison with \<open>NaN\<close> is
  false.
\<close>

definition tick_time :: "nat \<Rightarrow> real" where
  "tick_time now = to_double (real now / 1000)"

definition effective_blinkInterval :: "settings \<Rightarrow> real" where
  "effective_blinkInterval s = num_or (blinkInterval s) 4"

definition auto_blink :: "vrm_rig \<Rightarrow> face_obj \<Rightarrow> settings \<Rightarrow> nat \<Rightarrow> rig_write list" where
  "auto_blink vrm f s now =
     (if blinkEnabled s \<and> falsy (blendShapes f ''eyeBlinkLeft'') then
        (let time = tick_time now;
             interval = effective_blinkInterval s
         in if js_rem (of_int \<lfloor>time\<rfloor>) interval = Some 0 \<and>
               (case js_rem time 1 of None \<Rightarrow> False | Some r \<Rightarrow> r < to_double 0.15) then
              (if has_expressionManager vrm then [Expression ''blink'' 1] else [])
            else [])
      else [])"

definition idle_animation :: "vrm_rig \<Rightarrow> settings \<Rightarrow> nat \<Rightarrow> rig_write list" where
  "idle_animation vrm s now =
     (if idleAnimationEnabled s \<and> has_humanoid vrm then
        (let time = tick_time now in
         if ''chest'' \<in> bone_nodes vrm then
           [BoneRotation ''chest'' AxisX (sin (time * 2) * 0.02)]
         else [])
      else [])"

text \<open>
  One run of the effect: the writes it made and the exception that ended it, if any.
  \<open>now_blink\<close> and \<open>now_idle\<close> are the clock readings of its two \<open>Date.now()\<close> calls.
\<close>

definition useVRMAnimation ::
  "vrm_rig option \<Rightarrow> store \<Rightarrow> tracking_data \<Rightarrow> model_transform \<Rightarrow> settings \<Rightarrow> real \<Rightarrow>
   nat \<Rightarrow> nat \<Rightarrow> rig_write list \<times> error option" where
  "useVRMAnimation vrm_opt h td mt s micLevel now_blink now_idle =
     (case vrm_opt of
        None \<Rightarrow> ([], None)
      | Some vrm \<Rightarrow>
          (let w = apply_model_transform mt @
                   apply_face vrm (face_heap h (face td)) s micLevel @
                   apply_pose vrm (pose td) s
           in case apply_hands vrm (hands_heap h (hands td)) s of
                (wh, Some e) \<Rightarrow> (w @ wh, Some e)
              | (wh, None) \<Rightarrow>
                  (w @ wh @ auto_blink vrm (face_heap h (face td)) s now_blink @
                   idle_animation vrm s now_idle, None)))"

section \<open>Vocabulary of the properties\<close>

text \<open>\<open>xs && xs.length > 0\<close>.\<close>

definition present :: "'a list option \<Rightarrow> bool" where
  "present v = (case v of None \<Rightarrow> False | Some xs \<Rightarrow> 0 < length xs)"

text \<open>The tick gets past the guard at the top of \<open>predict\<close>.\<close>

definition tick_runs :: "tick_input \<Rightarrow> bool" where
  "tick_runs inp =
     (isTracking inp \<and>
      (case videoReadyState inp of None \<Rightarrow> False | Some readyState \<Rightarrow> 2 \<le> readyState))"

text \<open>The variables of the \<open>try\<close> block as it is entered.\<close>

definition start :: "hook_state \<Rightarrow> locals" where
  "start st =
     \<lparr>l_mem = mem st, newTrackingData = trackingData st, newDetectionStatus = no_detection\<rparr>"

text \<open>A face is detected on the tick: face tracking is on and the detector returns a face.\<close>

definition face_detected :: "settings \<Rightarrow> tick_input \<Rightarrow> bool" where
  "face_detected s inp =
     (faceTrackingEnabled s \<and>
      (case faceLandmarker inp of
         None \<Rightarrow> False
       | Some Throws \<Rightarrow> False
       | Some (Returns r) \<Rightarrow> present (faceLandmarks r)))"

text \<open>The face detector delivers blend shapes on the tick, along with a face.\<close>

definition blendshapes_delivered :: "settings \<Rightarrow> tick_input \<Rightarrow> bool" where
  "blendshapes_delivered s inp =
     (faceTrackingEnabled s \<and>
      (case faceLandmarker inp of
         None \<Rightarrow> False
       | Some Throws \<Rightarrow> False
       | Some (Returns r) \<Rightarrow> present (faceLandmarks r) \<and> present (faceBlendshapes r)))"

text \<open>The hand detector reports the hand \<open>k\<close> (\<open>left\<close> or \<open>right\<close>) on the tick.\<close>

definition labelled :: "string \<Rightarrow> string list \<Rightarrow> bool" where
  "labelled k h = (case h of [] \<Rightarrow> False | categoryName # _ \<Rightarrow> toLowerCase categoryName = k)"

definition hand_reported :: "settings \<Rightarrow> tick_input \<Rightarrow> string \<Rightarrow> bool" where
  "hand_reported s inp k =
     (handTrackingEnabled s \<and>
      (case handLandmarker inp of
         None \<Rightarrow> False
       | Some Throws \<Rightarrow> False
       | Some (Returns r) \<Rightarrow> present (hand_landmarks r) \<and> list_ex (labelled k) (handedness r)))"

text \<open>The detector of an enabled modality throws on the tick.\<close>

definition detector_throws :: "settings \<Rightarrow> tick_input \<Rightarrow> bool" where
  "detector_throws s inp =
     (faceTrackingEnabled s \<and> faceLandmarker inp = Some Throws \<or>
      bodyTrackingEnabled s \<and> poseLandmarker inp = Some Throws \<or>
      handTrackingEnabled s \<and> handLandmarker inp = Some Throws)"

definition published_rotation :: "hook_state \<Rightarrow> vec3" where
  "published_rotation st = rotation (published_face st)"

text \<open>Every score of a blend-shape mapping lies in the unit interval.\<close>

definition scores_in_unit :: "(string \<rightharpoonup> real) \<Rightarrow> bool" where
  "scores_in_unit bs = (\<forall>k v. bs k = Some v \<longrightarrow> 0 \<le> v \<and> v \<le> 1)"

text \<open>The tracked jaw-open score, a missing one counting as zero.\<close>

definition jaw_score :: "(string \<rightharpoonup> real) \<Rightarrow> real" where
  "jaw_score bs = (case bs ''jawOpen'' of None \<Rightarrow> 0 | Some j \<Rightarrow> j)"


section \<open>Sample inputs\<close>

text \<open>The settings the application starts with (App.jsx).\<close>

definition default_settings :: settings where
  "default_settings =
     \<lparr>faceTrackingEnabled = True, bodyTrackingEnabled = True, handTrackingEnabled = True,
      mirrorMode = True, trackingSmoothing = 0.5, trackingSpeed = 1,
      lipSyncEnabled = True, lipSyncSensitivity = 0.7, blinkEnabled = True,
      blinkInterval = Some 4, idleAnimationEnabled = True\<rparr>"

text \<open>
  A face of 264 landmarks looking straight at the camera, but for the nose tip, whose
  horizontal position is the parameter; a pose of 33 landmarks; a hand of 21.
\<close>

definition sample_face :: "real \<Rightarrow> vec3 list" where
  "sample_face nose_x =
     (replicate 264 \<lparr>vx = 0.5, vy = 0.5, vz = 0\<rparr>)
       [1 := \<lparr>vx = nose_x, vy = 0.5, vz = 0\<rparr>,
        33 := \<lparr>vx = 0.45, vy = 0.5, vz = 0\<rparr>,
        263 := \<lparr>vx = 0.55, vy = 0.5, vz = 0\<rparr>]"

definition sample_pose :: "vec3 list" where
  "sample_pose = replicate 33 \<lparr>vx = 0.25, vy = 0.75, vz = 0\<rparr>"

definition sample_hand :: "vec3 list" where
  "sample_hand = replicate 21 \<lparr>vx = 0.5, vy = 0.5, vz = 0\<rparr>"

definition tick ::
  "face_results detection option \<Rightarrow> pose_results detection option \<Rightarrow>
   hand_results detection option \<Rightarrow> tick_input" where
  "tick f p h =
     \<lparr>isTracking = True, videoReadyState = Some 4,
      faceLandmarker = f, poseLandmarker = p, handLandmarker = h\<rparr>"

definition face_seen ::
  "real \<Rightarrow> (string \<times> real) list list option \<Rightarrow> face_results detection option" where
  "face_seen nose_x bs =
     Some (Returns \<lparr>faceLandmarks = Some [sample_face nose_x], faceBlendshapes = bs\<rparr>)"

definition no_face :: "face_results detection option" where
  "no_face = Some (Returns \<lparr>faceLandmarks = Some [], faceBlendshapes = Some []\<rparr>)"

definition pose_seen :: "pose_results detection option" where
  "pose_seen = Some (Returns \<lparr>pose_landmarks = Some [sample_pose]\<rparr>)"

definition no_pose :: "pose_results detection option" where
  "no_pose = Some (Returns \<lparr>pose_landmarks = Some []\<rparr>)"

definition hands_seen :: "string list \<Rightarrow> hand_results detection option" where
  "hands_seen labels =
     Some (Returns \<lparr>hand_landmarks = Some (map (\<lambda>_. sample_hand) labels),
                    handedness = map (\<lambda>c. [c]) labels\<rparr>)"

text \<open>
  Ticks with all three detectors running: one on which nothing is in view, and one on
  which only a face is.
\<close>

definition nothing_seen :: tick_input where
  "nothing_seen = tick no_face no_pose (hands_seen [])"

definition face_tick :: "real \<Rightarrow> (string \<times> real) list list option \<Rightarrow> tick_input" where
  "face_tick nose_x bs = tick (face_seen nose_x bs) no_pose (hands_seen [])"

definition jaw_half :: "(string \<times> real) list list option" where
  "jaw_half = Some [[(''jawOpen'', 0.5)]]"

text \<open>A rig with every bone and expression the applier addresses, and an untouched model.\<close>

definition full_rig :: vrm_rig where
  "full_rig =
     \<lparr>has_humanoid = True,
      bone_nodes = {''head'', ''chest'', ''leftUpperArm'', ''rightUpperArm'', ''leftLowerArm'',
                    ''rightLowerArm'', ''leftHand'', ''rightHand''},
      has_expressionManager = True,
      has_lookAt = True\<rparr>"

definition default_transform :: model_transform where
  "default_transform = \<lparr>modelPosition = zero3, modelScale = 1, modelRotation = 0\<rparr>"

text \<open>States the hook reaches from its initial state in one tick.\<close>

definition after_turn :: hook_state where
  "after_turn = predict default_settings (face_tick (1/3) jaw_half) initial_state"

definition after_left_hand :: hook_state where
  "after_left_hand =
     predict default_settings (tick no_face no_pose (hands_seen [''Left''])) initial_state"

definition after_jaw :: hook_state where
  "after_jaw =
     predict default_settings (face_tick 0.5 jaw_half) initial_state"

definition after_smile :: hook_state where
  "after_smile =
     predict default_settings
       (face_tick 0.5 (Some [[(''mouthSmileLeft'', 1), (''mouthSmileRight'', 1)]]))
       initial_state"

definition after_no_pose :: hook_state where
  "after_no_pose = predict default_settings nothing_seen initial_state"

text \<open>A pose is detected on the tick: body tracking is on and the detector returns a pose.\<close>

definition pose_detected :: "settings \<Rightarrow> tick_input \<Rightarrow> bool" where
  "pose_detected s inp =
     (bodyTrackingEnabled s \<and>
      (case poseLandmarker inp of
         None \<Rightarrow> False
       | Some Throws \<Rightarrow> False
       | Some (Returns r) \<Rightarrow> present (pose_landmarks r)))"


section \<open>The steps of the tracking loop\<close>

lemma lerp_same: "lerp a a t = a"
  by (simp add: lerp_def)

text \<open>
  The new frame is a shallow copy of the old one, so both name the same face object:
  by the time the smoothing block runs, the "previous" rotation it reads is the one the
  face block has just written, and the interpolation returns that value.
\<close>

lemma apply_smoothing_alias:
  "face td = face (newTrackingData l) \<Longrightarrow> apply_smoothing s td l = l"
  by (simp add: apply_smoothing_def Let_def lerp_same update_face_def)

lemma face_tracking_not_detected:
  "\<not> face_detected s inp \<Longrightarrow> snd (face_tracking s inp l) = l"
  by (auto simp: face_detected_def present_def face_tracking_def
           split: option.splits detection.splits list.splits)

lemma face_tracking_refs:
  "newTrackingData (snd (face_tracking s inp l)) = newTrackingData l"
  "hands_heap (l_mem (snd (face_tracking s inp l))) = hands_heap (l_mem l)"
  by (auto simp: face_tracking_def Let_def update_face_def
           split: option.splits detection.splits list.splits)

lemma face_tracking_blendShapes:
  "\<not> blendshapes_delivered s inp \<Longrightarrow>
   blendShapes (face_heap (l_mem (snd (face_tracking s inp l))) a) =
   blendShapes (face_heap (l_mem l) a)"
  by (auto simp: blendshapes_delivered_def present_def face_tracking_def Let_def update_face_def
           split: option.splits detection.splits list.splits)

lemma face_tracking_ignores_smoothing:
  "face_tracking (s\<lparr>trackingSmoothing := c\<rparr>) inp l = face_tracking s inp l"
  by (simp add: face_tracking_def Let_def split: option.splits detection.splits list.splits)

lemma pose_tracking_refs:
  "l_mem (snd (pose_tracking s inp l)) = l_mem l"
  "face (newTrackingData (snd (pose_tracking s inp l))) = face (newTrackingData l)"
  "hands (newTrackingData (snd (pose_tracking s inp l))) = hands (newTrackingData l)"
  by (auto simp: pose_tracking_def Let_def split: option.splits detection.splits list.splits)

lemma hands_forEach_refs:
  "newTrackingData (snd (hands_forEach lss hs i l)) = newTrackingData l \<and>
   face_heap (l_mem (snd (hands_forEach lss hs i l))) = face_heap (l_mem l)"
  by (induction lss hs i l rule: hands_forEach.induct)
     (auto simp: Let_def update_hands_def split: list.splits)

lemma hand_tracking_refs:
  "newTrackingData (snd (hand_tracking s inp l)) = newTrackingData l"
  "face_heap (l_mem (snd (hand_tracking s inp l))) = face_heap (l_mem l)"
  by (auto simp: hand_tracking_def hands_forEach_refs
           split: option.splits detection.splits list.splits)

lemma left_set_key: "left (set_key k v ob) = (if k = ''left'' then v else left ob)"
  by (simp add: set_key_def)

lemma right_set_key: "right (set_key k v ob) = (if k = ''right'' then v else right ob)"
  by (simp add: set_key_def)

lemma hands_forEach_left:
  "\<not> list_ex (labelled ''left'') hs \<Longrightarrow>
   left (hands_heap (l_mem (snd (hands_forEach lss hs i l))) a) = left (hands_heap (l_mem l) a)"
  by (induction lss hs i l rule: hands_forEach.induct)
     (auto simp: Let_def update_hands_def labelled_def left_set_key split: list.splits)

lemma hands_forEach_right:
  "\<not> list_ex (labelled ''right'') hs \<Longrightarrow>
   right (hands_heap (l_mem (snd (hands_forEach lss hs i l))) a) = right (hands_heap (l_mem l) a)"
  by (induction lss hs i l rule: hands_forEach.induct)
     (auto simp: Let_def update_hands_def labelled_def right_set_key split: list.splits)

lemma hand_tracking_left:
  "\<not> hand_reported s inp ''left'' \<Longrightarrow>
   left (hands_heap (l_mem (snd (hand_tracking s inp l))) a) = left (hands_heap (l_mem l) a)"
  by (auto simp: hand_tracking_def hand_reported_def present_def hands_forEach_left
           split: option.splits detection.splits list.splits)

lemma hand_tracking_right:
  "\<not> hand_reported s inp ''right'' \<Longrightarrow>
   right (hands_heap (l_mem (snd (hand_tracking s inp l))) a) = right (hands_heap (l_mem l) a)"
  by (auto simp: hand_tracking_def hand_reported_def present_def hands_forEach_right
           split: option.splits detection.splits list.splits)

text \<open>
  The block, step by step. Because of the aliasing the smoothing step drops out: the
  block ends as its hand step ends.
\<close>

lemma try_block_steps:
  assumes "face td = face (newTrackingData l)"
  obtains r1 l1 r2 l2 r3 l3 where
    "face_tracking s inp l = (r1, l1)"
    "pose_tracking s inp l1 = (r2, l2)"
    "hand_tracking s inp l2 = (r3, l3)"
    "try_block s inp td l =
       (case r1 of Some e \<Rightarrow> (Some e, l1) | None \<Rightarrow>
          (case r2 of Some e \<Rightarrow> (Some e, l2) | None \<Rightarrow> (r3, l3)))"
proof -
  obtain r1 l1 where f: "face_tracking s inp l = (r1, l1)" by (cases "face_tracking s inp l")
  obtain r2 l2 where p: "pose_tracking s inp l1 = (r2, l2)" by (cases "pose_tracking s inp l1")
  obtain r3 l3 where h: "hand_tracking s inp l2 = (r3, l3)" by (cases "hand_tracking s inp l2")
  have "newTrackingData l1 = newTrackingData l"
    using face_tracking_refs(1)[of s inp l] f by simp
  moreover have "face (newTrackingData l2) = face (newTrackingData l1)"
    using pose_tracking_refs(2)[of s inp l1] p by simp
  moreover have "newTrackingData l3 = newTrackingData l2"
    using hand_tracking_refs(1)[of s inp l2] h by simp
  ultimately have "apply_smoothing s td l3 = l3"
    using assms by (simp add: apply_smoothing_alias)
  then have "try_block s inp td l =
       (case r1 of Some e \<Rightarrow> (Some e, l1) | None \<Rightarrow>
          (case r2 of Some e \<Rightarrow> (Some e, l2) | None \<Rightarrow> (r3, l3)))"
    using f p h by (auto simp: try_block_def and_then_def split: option.splits)
  then show thesis using that f p h by blast
qed

lemma try_block_face_heap:
  assumes "face td = face (newTrackingData l)"
  shows "face_heap (l_mem (snd (try_block s inp td l))) =
         face_heap (l_mem (snd (face_tracking s inp l)))"
proof -
  from assms obtain r1 l1 r2 l2 r3 l3 where st:
    "face_tracking s inp l = (r1, l1)"
    "pose_tracking s inp l1 = (r2, l2)"
    "hand_tracking s inp l2 = (r3, l3)"
    "try_block s inp td l =
       (case r1 of Some e \<Rightarrow> (Some e, l1) | None \<Rightarrow>
          (case r2 of Some e \<Rightarrow> (Some e, l2) | None \<Rightarrow> (r3, l3)))"
    by (rule try_block_steps)
  have h2: "l_mem l2 = l_mem l1"
    using pose_tracking_refs(1)[of s inp l1] st(2) by simp
  have h3: "face_heap (l_mem l3) = face_heap (l_mem l2)"
    using hand_tracking_refs(2)[of s inp l2] st(3) by simp
  show ?thesis using st(1,4) h2 h3 by (auto split: option.splits)
qed

lemma try_block_left:
  assumes "\<not> hand_reported s inp ''left''" "face td = face (newTrackingData l)"
  shows "left (hands_heap (l_mem (snd (try_block s inp td l))) a) = left (hands_heap (l_mem l) a)"
proof -
  from assms(2) obtain r1 l1 r2 l2 r3 l3 where st:
    "face_tracking s inp l = (r1, l1)"
    "pose_tracking s inp l1 = (r2, l2)"
    "hand_tracking s inp l2 = (r3, l3)"
    "try_block s inp td l =
       (case r1 of Some e \<Rightarrow> (Some e, l1) | None \<Rightarrow>
          (case r2 of Some e \<Rightarrow> (Some e, l2) | None \<Rightarrow> (r3, l3)))"
    by (rule try_block_steps)
  have h1: "hands_heap (l_mem l1) = hands_heap (l_mem l)"
    using face_tracking_refs(2)[of s inp l] st(1) by simp
  have h2: "l_mem l2 = l_mem l1"
    using pose_tracking_refs(1)[of s inp l1] st(2) by simp
  have h3: "left (hands_heap (l_mem l3) a) = left (hands_heap (l_mem l2) a)"
    using hand_tracking_left[OF assms(1), of l2 a] st(3) by simp
  show ?thesis using st(4) h1 h2 h3 by (auto split: option.splits)
qed

lemma try_block_right:
  assumes "\<not> hand_reported s inp ''right''" "face td = face (newTrackingData l)"
  shows "right (hands_heap (l_mem (snd (try_block s inp td l))) a) = right (hands_heap (l_mem l) a)"
proof -
  from assms(2) obtain r1 l1 r2 l2 r3 l3 where st:
    "face_tracking s inp l = (r1, l1)"
    "pose_tracking s inp l1 = (r2, l2)"
    "hand_tracking s inp l2 = (r3, l3)"
    "try_block s inp td l =
       (case r1 of Some e \<Rightarrow> (Some e, l1) | None \<Rightarrow>
          (case r2 of Some e \<Rightarrow> (Some e, l2) | None \<Rightarrow> (r3, l3)))"
    by (rule try_block_steps)
  have h1: "hands_heap (l_mem l1) = hands_heap (l_mem l)"
    using face_tracking_refs(2)[of s inp l] st(1) by simp
  have h2: "l_mem l2 = l_mem l1"
    using pose_tracking_refs(1)[of s inp l1] st(2) by simp
  have h3: "right (hands_heap (l_mem l3) a) = right (hands_heap (l_mem l2) a)"
    using hand_tracking_right[OF assms(1), of l2 a] st(3) by simp
  show ?thesis using st(4) h1 h2 h3 by (auto split: option.splits)
qed

lemma try_block_throws:
  assumes "detector_throws s inp"
  shows "fst (try_block s inp td l) \<noteq> None"
proof -
  obtain r1 l1 where f: "face_tracking s inp l = (r1, l1)" by (cases "face_tracking s inp l")
  obtain r2 l2 where p: "pose_tracking s inp l1 = (r2, l2)" by (cases "pose_tracking s inp l1")
  obtain r3 l3 where h: "hand_tracking s inp l2 = (r3, l3)" by (cases "hand_tracking s inp l2")
  have 1: "faceTrackingEnabled s \<and> faceLandmarker inp = Some Throws \<Longrightarrow> r1 \<noteq> None"
    using f by (auto simp: face_tracking_def)
  have 2: "bodyTrackingEnabled s \<and> poseLandmarker inp = Some Throws \<Longrightarrow> r2 \<noteq> None"
    using p by (auto simp: pose_tracking_def)
  have 3: "handTrackingEnabled s \<and> handLandmarker inp = Some Throws \<Longrightarrow> r3 \<noteq> None"
    using h by (auto simp: hand_tracking_def)
  show ?thesis
    using assms f p h 1 2 3
    by (auto simp: detector_throws_def try_block_def and_then_def split: option.splits)
qed

section \<open>One tick\<close>

lemma predict_cases:
  "predict s inp st =
     (if tick_runs inp then
        (case try_block s inp (trackingData st) (start st) of
           (None, l) \<Rightarrow>
             request_frame (st\<lparr>mem := l_mem l, trackingData := newTrackingData l,
                               detectionStatus := newDetectionStatus l\<rparr>)
         | (Some e, l) \<Rightarrow>
             request_frame (st\<lparr>mem := l_mem l, errors_logged := Suc (errors_logged st)\<rparr>))
      else request_frame st)"
  by (auto simp: predict_def tick_runs_def start_def split: option.splits)

lemma predict_requests_frame:
  "frames_requested (predict s inp st) = Suc (frames_requested st)"
  by (auto simp: predict_cases request_frame_def split: prod.splits option.splits)

lemma published_face_predict:
  "published_face (predict s inp st) =
     (if tick_runs inp then
        face_heap (l_mem (snd (face_tracking s inp (start st)))) (face (trackingData st))
      else published_face st)"
proof -
  have al: "face (trackingData st) = face (newTrackingData (start st))" by (simp add: start_def)
  then obtain r1 l1 r2 l2 r3 l3 where st:
    "face_tracking s inp (start st) = (r1, l1)"
    "pose_tracking s inp l1 = (r2, l2)"
    "hand_tracking s inp l2 = (r3, l3)"
    "try_block s inp (trackingData st) (start st) =
       (case r1 of Some e \<Rightarrow> (Some e, l1) | None \<Rightarrow>
          (case r2 of Some e \<Rightarrow> (Some e, l2) | None \<Rightarrow> (r3, l3)))"
    by (rule try_block_steps)
  have n1: "newTrackingData l1 = trackingData st"
    using face_tracking_refs(1)[of s inp "start st"] st(1) by (simp add: start_def)
  have n2: "face (newTrackingData l2) = face (trackingData st)"
    using pose_tracking_refs(2)[of s inp l1] st(2) n1 by simp
  have n3: "face (newTrackingData l3) = face (trackingData st)"
    using hand_tracking_refs(1)[of s inp l2] st(3) n2 by simp
  have "published_face (predict s inp st) =
     (if tick_runs inp then
        face_heap (l_mem (snd (try_block s inp (trackingData st) (start st)))) (face (trackingData st))
      else published_face st)"
    using st(4) n1 n2 n3
    by (auto simp: predict_cases published_face_def request_frame_def split: option.splits)
  then show ?thesis
    using try_block_face_heap[OF al, of s inp] by simp
qed

lemma published_hands_predict:
  "published_hands (predict s inp st) =
     (if tick_runs inp then
        hands_heap (l_mem (snd (try_block s inp (trackingData st) (start st))))
          (hands (trackingData st))
      else published_hands st)"
proof -
  have "face (trackingData st) = face (newTrackingData (start st))" by (simp add: start_def)
  then obtain r1 l1 r2 l2 r3 l3 where st:
    "face_tracking s inp (start st) = (r1, l1)"
    "pose_tracking s inp l1 = (r2, l2)"
    "hand_tracking s inp l2 = (r3, l3)"
    "try_block s inp (trackingData st) (start st) =
       (case r1 of Some e \<Rightarrow> (Some e, l1) | None \<Rightarrow>
          (case r2 of Some e \<Rightarrow> (Some e, l2) | None \<Rightarrow> (r3, l3)))"
    by (rule try_block_steps)
  have n1: "newTrackingData l1 = trackingData st"
    using face_tracking_refs(1)[of s inp "start st"] st(1) by (simp add: start_def)
  have n2: "hands (newTrackingData l2) = hands (trackingData st)"
    using pose_tracking_refs(3)[of s inp l1] st(2) n1 by simp
  have n3: "hands (newTrackingData l3) = hands (trackingData st)"
    using hand_tracking_refs(1)[of s inp l2] st(3) n2 by simp
  show ?thesis
    using st(4) n1 n2 n3
    by (auto simp: predict_cases published_hands_def request_frame_def split: option.splits)
qed

text \<open>
  The face the hook publishes does not depend on \<open>trackingSmoothing\<close> at all: whatever
  the setting, it is the face the face block leaves in the store.
\<close>

lemma published_face_ignores_smoothing:
  "published_face (predict (s\<lparr>trackingSmoothing := c\<rparr>) inp st) = published_face (predict s inp st)"
  by (simp add: published_face_predict face_tracking_ignores_smoothing)

section \<open>Evaluating the sample inputs\<close>

lemma sample_face_at:
  "at_index (sample_face n) (Suc 0) = Some \<lparr>vx = n, vy = 0.5, vz = 0\<rparr>"
  "at_index (sample_face n) 33 = Some \<lparr>vx = 0.45, vy = 0.5, vz = 0\<rparr>"
  "at_index (sample_face n) 263 = Some \<lparr>vx = 0.55, vy = 0.5, vz = 0\<rparr>"
  by (simp_all add: at_index_def sample_face_def)

lemma sample_pose_at:
  "i < 33 \<Longrightarrow> at_index sample_pose i = Some \<lparr>vx = 0.25, vy = 0.75, vz = 0\<rparr>"
  by (simp add: at_index_def sample_pose_def)

lemma lower_Left: "toLowerCase ''Left'' = ''left''"
  by code_simp

lemma lower_Right: "toLowerCase ''Right'' = ''right''"
  by code_simp

lemmas tick_eval =
  predict_def try_block_def and_then_def face_tracking_def pose_tracking_def hand_tracking_def
  apply_smoothing_def update_face_def update_hands_def lerp_def atan2_def request_frame_def
  no_detection_def set_key_def Let_def tick_def face_seen_def no_face_def pose_seen_def
  no_pose_def hands_seen_def nothing_seen_def face_tick_def jaw_half_def default_settings_def
  sample_face_at sample_pose_at lower_Left
  lower_Right published_face_def published_hands_def published_rotation_def joint_def
  collect_blendShapes_def initial_state_def

lemma after_turn_eq:
  "published_rotation after_turn = \<lparr>vx = 0, vy = 10, vz = 0\<rparr>"
  "faceDetected (detectionStatus after_turn)"
  "face (trackingData after_turn) = 0"
  by (simp_all add: after_turn_def tick_eval)

lemma after_left_hand_eq:
  "left (published_hands after_left_hand) = \<lparr>landmarks = Some sample_hand, detected = True\<rparr>"
  "right (published_hands after_left_hand) = no_hand"
  "hands (trackingData after_left_hand) = 0"
  "face (trackingData after_left_hand) = 0"
  by (simp_all add: after_left_hand_def tick_eval at_index_def)

lemma after_jaw_eq:
  "blendShapes (published_face after_jaw) = [''jawOpen'' \<mapsto> 0.5]"
  "face (trackingData after_jaw) = 0"
  by (simp_all add: after_jaw_def tick_eval)

lemma after_smile_eq:
  "blendShapes (face_heap (mem after_smile) (face (trackingData after_smile))) =
     [''mouthSmileLeft'' \<mapsto> 1, ''mouthSmileRight'' \<mapsto> 1]"
  by (simp add: after_smile_def tick_eval)

lemma after_no_pose_eq:
  "poseDetected (detectionStatus after_no_pose) = False"
  "pose (trackingData after_no_pose) = pose (trackingData initial_state)"
  by (simp_all add: after_no_pose_def tick_eval)

section \<open>The writes of the retarget applier\<close>

lemma num_or_zero: "num_or v 0 = (case v of None \<Rightarrow> 0 | Some r \<Rightarrow> r)"
  by (simp add: num_or_def split: option.splits)

lemma num_or_unit: "scores_in_unit bs \<Longrightarrow> 0 \<le> num_or (bs k) 0 \<and> num_or (bs k) 0 \<le> 1"
  by (auto simp: scores_in_unit_def num_or_zero split: option.splits)

lemma effect_writes:
  "set (fst (useVRMAnimation (Some vrm) h td mt s micLevel nb ni)) \<subseteq>
     set (apply_model_transform mt) \<union> set (apply_face vrm (face_heap h (face td)) s micLevel) \<union>
     set (apply_pose vrm (pose td) s) \<union> set (fst (apply_hands vrm (hands_heap h (hands td)) s)) \<union>
     set (auto_blink vrm (face_heap h (face td)) s nb) \<union> set (idle_animation vrm s ni)"
  by (auto simp: useVRMAnimation_def Let_def split: prod.splits option.splits)

lemma effect_writes_face_pose:
  "set (apply_face vrm (face_heap h (face td)) s micLevel) \<union> set (apply_pose vrm (pose td) s)
     \<subseteq> set (fst (useVRMAnimation (Some vrm) h td mt s micLevel nb ni))"
  by (auto simp: useVRMAnimation_def Let_def split: prod.splits option.splits)

text \<open>A run that does not throw in the hand block reaches the auto-blink block.\<close>

lemma effect_reaches_auto_blink:
  "snd (useVRMAnimation (Some vrm) h td mt s micLevel nb ni) = None \<Longrightarrow>
   set (auto_blink vrm (face_heap h (face td)) s nb)
     \<subseteq> set (fst (useVRMAnimation (Some vrm) h td mt s micLevel nb ni))"
  by (auto simp: useVRMAnimation_def Let_def split: prod.splits option.splits)

lemma transform_no_expression: "Expression n v \<notin> set (apply_model_transform mt)"
  by (simp add: apply_model_transform_def)

lemma pose_no_expression: "Expression n v \<notin> set (apply_pose vrm p s)"
  by (simp add: apply_pose_def)

lemma hand_no_expression: "Expression n v \<notin> set (fst (apply_hand vrm b ho))"
  by (simp add: apply_hand_def split: option.splits)

lemma hands_no_expression: "Expression n v \<notin> set (fst (apply_hands vrm hs s))"
  using hand_no_expression[of n v vrm "''leftHand''" "left hs"]
        hand_no_expression[of n v vrm "''rightHand''" "right hs"]
  by (auto simp: apply_hands_def split: prod.splits option.splits)

lemma idle_no_expression: "Expression n v \<notin> set (idle_animation vrm s ni)"
  by (simp add: idle_animation_def Let_def)

lemma auto_blink_expression:
  "Expression n v \<in> set (auto_blink vrm f s nb) \<Longrightarrow> n = ''blink'' \<and> v = 1"
  by (simp add: auto_blink_def Let_def split: if_splits)

lemma eye_blink_bounds:
  assumes "scores_in_unit bs" "Expression n v \<in> set (eye_blink bs s)"
  shows "0 \<le> v \<and> v \<le> 1 \<and> n \<noteq> ''happy'' \<and> n \<noteq> ''angry''"
  using assms(2) num_or_unit[OF assms(1), of "''eyeBlinkLeft''"]
        num_or_unit[OF assms(1), of "''eyeBlinkRight''"]
  by (auto simp: eye_blink_def Let_def split: if_splits)

lemma mouthOpen_bounds:
  assumes "0 \<le> a" "a \<le> 1" "0 \<le> b" "b \<le> 1" "0 \<le> c" "c \<le> 1"
  shows "0 \<le> mouthOpen a b c \<and> mouthOpen a b c \<le> 1"
proof -
  have "0 \<le> max a b" "max a b \<le> 1" using assms by simp_all
  then show ?thesis using assms(5,6) by (simp add: mouthOpen_def mult_le_one)
qed

lemma lip_sync_bounds:
  assumes "scores_in_unit bs" "0 \<le> micLevel" "micLevel \<le> 1"
    "0 \<le> lipSyncSensitivity s" "lipSyncSensitivity s \<le> 1"
    "Expression n v \<in> set (lip_sync bs s micLevel)"
  shows "0 \<le> v \<and> v \<le> (if n = ''happy'' then 2 else 1)"
proof -
  have m: "0 \<le> num_or (Some micLevel) 0 \<and> num_or (Some micLevel) 0 \<le> 1"
    using assms(2,3) by (simp add: num_or_def)
  show ?thesis
    using assms(6) num_or_unit[OF assms(1), of "''mouthSmileLeft''"]
      num_or_unit[OF assms(1), of "''mouthSmileRight''"]
      mouthOpen_bounds[of "num_or (bs ''jawOpen'') 0" "num_or (Some micLevel) 0" "lipSyncSensitivity s"]
      num_or_unit[OF assms(1), of "''jawOpen''"] m assms(4,5)
    by (auto simp: lip_sync_def Let_def split: if_splits)
qed

lemma eyebrows_bounds:
  assumes "scores_in_unit bs" "Expression n v \<in> set (eyebrows bs)"
  shows "0 \<le> v \<and> v \<le> (if n = ''angry'' then 2 else 1)"
  using assms(2) num_or_unit[OF assms(1), of "''browInnerUp''"]
        num_or_unit[OF assms(1), of "''browDownLeft''"]
        num_or_unit[OF assms(1), of "''browDownRight''"]
  by (auto simp: eyebrows_def Let_def split: if_splits)

lemma face_expression:
  "Expression n v \<in> set (apply_face vrm f s micLevel) \<Longrightarrow>
   Expression n v \<in> set (eye_blink (blendShapes f) s) \<or>
   Expression n v \<in> set (lip_sync (blendShapes f) s micLevel) \<or>
   Expression n v \<in> set (eyebrows (blendShapes f))"
  by (auto simp: apply_face_def head_rotation_def eye_look_def Let_def split: if_splits)

lemma aa_in_face:
  "(Expression ''aa'' v \<in> set (apply_face vrm f s micLevel)) =
   (faceTrackingEnabled s \<and> has_expressionManager vrm \<and> lipSyncEnabled s \<and>
    v = mouthOpen (jaw_score (blendShapes f)) micLevel (lipSyncSensitivity s))"
  by (auto simp: apply_face_def head_rotation_def eye_blink_def lip_sync_def eyebrows_def
        eye_look_def Let_def jaw_score_def num_or_zero mouthOpen_def split: option.splits)

lemma happy_in_face:
  "faceTrackingEnabled s \<Longrightarrow> has_expressionManager vrm \<Longrightarrow> lipSyncEnabled s \<Longrightarrow>
   Expression ''happy'' (num_or (blendShapes f ''mouthSmileLeft'') 0 +
                        num_or (blendShapes f ''mouthSmileRight'') 0)
     \<in> set (apply_face vrm f s micLevel)"
  by (simp add: apply_face_def lip_sync_def Let_def)

text \<open>Which bones each block writes.\<close>

lemma transform_no_bone: "BoneRotation b ax r \<notin> set (apply_model_transform mt)"
  by (simp add: apply_model_transform_def)

lemma face_bone: "BoneRotation b ax r \<in> set (apply_face vrm f s micLevel) \<Longrightarrow> b = ''head''"
  by (auto simp: apply_face_def head_rotation_def eye_blink_def lip_sync_def eyebrows_def
        eye_look_def Let_def split: if_splits)

lemma hand_bone: "BoneRotation b ax r \<in> set (fst (apply_hand vrm bone ho)) \<Longrightarrow> b = bone"
  by (auto simp: apply_hand_def split: option.splits if_splits)

lemma hands_bone:
  "BoneRotation b ax r \<in> set (fst (apply_hands vrm hs s)) \<Longrightarrow> b = ''leftHand'' \<or> b = ''rightHand''"
  using hand_bone[of b ax r vrm "''leftHand''" "left hs"]
        hand_bone[of b ax r vrm "''rightHand''" "right hs"]
  by (auto simp: apply_hands_def split: prod.splits option.splits if_splits)

lemma auto_blink_no_bone: "BoneRotation b ax r \<notin> set (auto_blink vrm f s nb)"
  by (simp add: auto_blink_def Let_def)

lemma idle_bone: "BoneRotation b ax r \<in> set (idle_animation vrm s ni) \<Longrightarrow> b = ''chest''"
  by (auto simp: idle_animation_def Let_def split: if_splits)

lemma arm_bone_writes:
  assumes "b \<noteq> ''head''" "b \<noteq> ''leftHand''" "b \<noteq> ''rightHand''" "b \<noteq> ''chest''"
  shows "(BoneRotation b ax r \<in> set (fst (useVRMAnimation (Some vrm) h td mt s micLevel nb ni))) =
         (BoneRotation b ax r \<in> set (apply_pose vrm (pose td) s))"
  using assms effect_writes[of vrm h td mt s micLevel nb ni]
    effect_writes_face_pose[of vrm h td s micLevel mt nb ni]
    transform_no_bone[of b ax r mt] face_bone[of b ax r vrm "face_heap h (face td)" s micLevel]
    hands_bone[of b ax r vrm "hands_heap h (hands td)" s]
    auto_blink_no_bone[of b ax r vrm "face_heap h (face td)" s nb]
    idle_bone[of b ax r vrm s ni]
  by auto

section \<open>The remainder and the modulo\<close>





subsection \<open>Rounding to a double\<close>















subsection \<open>The auto-blink check\<close>



section \<open>The claims\<close>

subsection \<open>Temporal smoothing\<close>

text \<open>
  Claim C1 says that on a tick with a detected face the published head rotation is
  \<open>lerp(previous, raw, 1 - trackingSmoothing)\<close> on each axis, so that with
  \<open>trackingSmoothing = 0.5\<close>, a previous yaw of 0 and a raw yaw of 10 the published yaw
  is 5. The code at that input: from the initial frame (yaw 0), with the default
  settings (\<open>trackingSmoothing = 0.5\<close>, mirrored) and a nose tip at \<open>x = 1/3\<close>, the raw yaw
  is 10 (it is what the tick publishes with smoothing switched off), the interpolation
  asked for is 5, and the tick publishes 10. The smoothing block reads the "previous"
  rotation through the face object the new frame shares with the old one, after the
  face block has overwritten it.
\<close>

theorem C1_smoothing_not_applied:
  "vy (published_rotation initial_state) = 0 \<and>
   trackingSmoothing default_settings = 0.5 \<and>
   vy (published_rotation
        (predict (default_settings\<lparr>trackingSmoothing := 0\<rparr>)
           (face_tick (1/3) jaw_half) initial_state)) = 10 \<and>
   lerp 0 10 (1 - trackingSmoothing default_settings) = 5 \<and>
   faceDetected (detectionStatus after_turn) \<and>
   vy (published_rotation after_turn) = 10"
  by (simp add: after_turn_def tick_eval zero3_def)

subsection \<open>Hands that are not reported\<close>

text \<open>
  Claim C2 says that a hand the detector does not report on a tick is published with
  \<open>detected = false\<close> and an empty landmark sequence, whatever the previous frame held.
  Counterexample: the left hand is reported on one tick and not on the next (the
  detector returns no hands); the second tick still publishes it as detected, with the
  landmarks of the first.
\<close>

theorem C2_stale_hand_counterexample:
  "\<not> hand_reported default_settings nothing_seen ''left'' \<and>
   detected (left (published_hands
      (predict default_settings nothing_seen after_left_hand))) \<and>
   landmarks (left (published_hands
      (predict default_settings nothing_seen after_left_hand))) = Some sample_hand \<and>
   sample_hand \<noteq> []"
  using after_left_hand_eq
  by (simp add: tick_eval hand_reported_def present_def sample_hand_def)

text \<open>
  Claim C2 as amended: a hand the detector does not report on a tick keeps, in the
  frame published for that tick, exactly the entry it had in the previous frame, flag
  and landmarks alike.
\<close>

theorem C2_missed_hand_keeps_entry:
  "(\<not> hand_reported s inp ''left'' \<longrightarrow>
      left (published_hands (predict s inp st)) = left (published_hands st)) \<and>
   (\<not> hand_reported s inp ''right'' \<longrightarrow>
      right (published_hands (predict s inp st)) = right (published_hands st))"
  using try_block_left[of s inp "trackingData st" "start st" "hands (trackingData st)"]
        try_block_right[of s inp "trackingData st" "start st" "hands (trackingData st)"]
  by (simp add: published_hands_predict) (simp add: start_def published_hands_def)

theorem C2_missed_hand_keeps_entry_witness:
  "\<not> hand_reported default_settings nothing_seen ''left'' \<and>
   \<not> hand_reported default_settings nothing_seen ''right'' \<and>
   left (published_hands (predict default_settings nothing_seen after_left_hand))
     = \<lparr>landmarks = Some sample_hand, detected = True\<rparr> \<and>
   right (published_hands (predict default_settings nothing_seen after_left_hand))
     = no_hand"
proof -
  have h: "\<not> hand_reported default_settings nothing_seen ''left''"
          "\<not> hand_reported default_settings nothing_seen ''right''"
    by (simp_all add: hand_reported_def nothing_seen_def tick_def hands_seen_def present_def)
  show ?thesis
    using h after_left_hand_eq(1,2)
      C2_missed_hand_keeps_entry[of default_settings nothing_seen after_left_hand]
    by simp
qed

subsection \<open>Expression weights\<close>

text \<open>
  Claim C3 says that with blend-shape scores, microphone level and lip-sync sensitivity
  in [0,1], every expression weight delivered to the rig lies in [0,1].
  Counterexample: with both smile scores at 1 the weight written to \<open>happy\<close> is their
  sum, 2.
\<close>

theorem C3_happy_exceeds_one_counterexample:
  "scores_in_unit (blendShapes (face_heap (mem after_smile) (face (trackingData after_smile)))) \<and>
   (0::real) \<le> 0 \<and> (0::real) \<le> 1 \<and>
   0 \<le> lipSyncSensitivity default_settings \<and> lipSyncSensitivity default_settings \<le> 1 \<and>
   Expression ''happy'' 2 \<in>
     set (fst (useVRMAnimation (Some full_rig) (mem after_smile) (trackingData after_smile)
                 default_transform default_settings 0 0 0)) \<and>
   \<not> (2::real) \<le> 1"
proof -
  let ?f = "face_heap (mem after_smile) (face (trackingData after_smile))"
  have "Expression ''happy'' (num_or (blendShapes ?f ''mouthSmileLeft'') 0 +
                             num_or (blendShapes ?f ''mouthSmileRight'') 0)
          \<in> set (apply_face full_rig ?f default_settings 0)"
    by (rule happy_in_face) (simp_all add: default_settings_def full_rig_def)
  then have "Expression ''happy'' 2 \<in> set (apply_face full_rig ?f default_settings 0)"
    by (simp add: after_smile_eq num_or_def)
  then have "Expression ''happy'' 2 \<in>
     set (fst (useVRMAnimation (Some full_rig) (mem after_smile) (trackingData after_smile)
                 default_transform default_settings 0 0 0))"
    using effect_writes_face_pose[of full_rig "mem after_smile" "trackingData after_smile"
            default_settings 0 default_transform 0 0]
    by blast
  moreover have "scores_in_unit (blendShapes ?f)"
    by (simp add: after_smile_eq scores_in_unit_def)
  ultimately show ?thesis by (simp add: default_settings_def)
qed

text \<open>
  Claim C3 as amended: under the same bounds on the inputs every expression weight
  delivered to the rig is non-negative; \<open>blink\<close>, \<open>blinkLeft\<close>, \<open>blinkRight\<close>, \<open>aa\<close> and
  \<open>surprised\<close> are at most 1, and \<open>happy\<close> and \<open>angry\<close>, each the sum of two scores, are
  at most 2.
\<close>

theorem C3_expression_bounds:
  assumes "scores_in_unit (blendShapes (face_heap h (face td)))"
    and "0 \<le> micLevel" and "micLevel \<le> 1"
    and "0 \<le> lipSyncSensitivity s" and "lipSyncSensitivity s \<le> 1"
  shows "\<forall>n v. Expression n v \<in> set (fst (useVRMAnimation vrm_opt h td mt s micLevel nb ni)) \<longrightarrow>
           0 \<le> v \<and> v \<le> (if n = ''happy'' \<or> n = ''angry'' then 2 else 1)"
proof (intro allI impI)
  fix n v
  assume w: "Expression n v \<in> set (fst (useVRMAnimation vrm_opt h td mt s micLevel nb ni))"
  then obtain vrm where vrm: "vrm_opt = Some vrm"
    by (cases vrm_opt) (simp_all add: useVRMAnimation_def)
  let ?f = "face_heap h (face td)"
  from w effect_writes[of vrm h td mt s micLevel nb ni]
  consider (face) "Expression n v \<in> set (apply_face vrm ?f s micLevel)"
    | (blink) "Expression n v \<in> set (auto_blink vrm ?f s nb)"
    unfolding vrm
    using transform_no_expression pose_no_expression hands_no_expression idle_no_expression
    by blast
  then show "0 \<le> v \<and> v \<le> (if n = ''happy'' \<or> n = ''angry'' then 2 else 1)"
  proof cases
    case face
    then show ?thesis
      using face_expression[OF face] eye_blink_bounds[OF assms(1), of n v s]
        lip_sync_bounds[OF assms, of n v] eyebrows_bounds[OF assms(1), of n v]
      by (auto split: if_splits)
  next
    case blink
    then show ?thesis using auto_blink_expression[OF blink] by simp
  qed
qed

theorem C3_expression_bounds_witness:
  "scores_in_unit (blendShapes (face_heap (mem after_smile) (face (trackingData after_smile)))) \<and>
   (0::real) \<le> 0.6 \<and> (0.6::real) \<le> 1 \<and>
   0 \<le> lipSyncSensitivity default_settings \<and> lipSyncSensitivity default_settings \<le> 1 \<and>
   Expression ''happy'' 2 \<in>
     set (fst (useVRMAnimation (Some full_rig) (mem after_smile) (trackingData after_smile)
                 default_transform default_settings 0.6 0 0)) \<and>
   (0::real) \<le> 2 \<and> (2::real) \<le> (if ''happy'' = ''happy'' \<or> ''happy'' = ''angry'' then 2 else 1)"
proof -
  let ?f = "face_heap (mem after_smile) (face (trackingData after_smile))"
  let ?W = "fst (useVRMAnimation (Some full_rig) (mem after_smile) (trackingData after_smile)
                 default_transform default_settings 0.6 0 0)"
  have sc: "scores_in_unit (blendShapes ?f)"
    by (simp add: after_smile_eq scores_in_unit_def)
  have se: "0 \<le> lipSyncSensitivity default_settings" "lipSyncSensitivity default_settings \<le> 1"
    by (simp_all add: default_settings_def)
  have "Expression ''happy'' (num_or (blendShapes ?f ''mouthSmileLeft'') 0 +
                             num_or (blendShapes ?f ''mouthSmileRight'') 0)
          \<in> set (apply_face full_rig ?f default_settings 0.6)"
    by (rule happy_in_face) (simp_all add: default_settings_def full_rig_def)
  then have "Expression ''happy'' 2 \<in> set (apply_face full_rig ?f default_settings 0.6)"
    by (simp add: after_smile_eq num_or_def)
  then have w: "Expression ''happy'' 2 \<in> set ?W"
    using effect_writes_face_pose[of full_rig "mem after_smile" "trackingData after_smile"
            default_settings "0.6" default_transform 0 0]
    by blast
  have "0 \<le> (0.6::real)" "(0.6::real) \<le> 1" by simp_all
  from C3_expression_bounds[OF sc this se, of "Some full_rig" default_transform 0 0] w
  have "(0::real) \<le> 2 \<and> (2::real) \<le> (if ''happy'' = ''happy'' \<or> ''happy'' = ''angry'' then 2 else 1)"
    by blast
  then show ?thesis using sc se w by simp
qed

subsection \<open>A detector that throws\<close>

text \<open>
  Claim C4 says that when one modality's detector throws, only that modality is
  skipped: what the other modalities detected on the tick is still committed to the
  published frame and detection status, and the loop goes on. Counterexample: the face
  and the pose are detected and the hand detector throws; the detection status
  published after the tick reports neither, and the frame's pose is still the initial
  one.
\<close>

theorem C4_other_modalities_dropped_counterexample:
  "face_detected default_settings (tick (face_seen (1/3) jaw_half) pose_seen (Some Throws)) \<and>
   pose_detected default_settings (tick (face_seen (1/3) jaw_half) pose_seen (Some Throws)) \<and>
   detectionStatus
     (predict default_settings (tick (face_seen (1/3) jaw_half) pose_seen (Some Throws)) initial_state)
     = no_detection \<and>
   pose (trackingData
     (predict default_settings (tick (face_seen (1/3) jaw_half) pose_seen (Some Throws)) initial_state))
     = pose (trackingData initial_state)"
  by (simp add: tick_eval face_detected_def pose_detected_def present_def)

lemma try_block_throws_hands:
  assumes "detector_throws s inp" "face td = face (newTrackingData l)"
  shows "hands_heap (l_mem (snd (try_block s inp td l))) = hands_heap (l_mem l)"
proof -
  from assms(2) obtain r1 l1 r2 l2 r3 l3 where st:
    "face_tracking s inp l = (r1, l1)"
    "pose_tracking s inp l1 = (r2, l2)"
    "hand_tracking s inp l2 = (r3, l3)"
    "try_block s inp td l =
       (case r1 of Some e \<Rightarrow> (Some e, l1) | None \<Rightarrow>
          (case r2 of Some e \<Rightarrow> (Some e, l2) | None \<Rightarrow> (r3, l3)))"
    by (rule try_block_steps)
  have h1: "hands_heap (l_mem l1) = hands_heap (l_mem l)"
    using face_tracking_refs(2)[of s inp l] st(1) by simp
  have h2: "l_mem l2 = l_mem l1"
    using pose_tracking_refs(1)[of s inp l1] st(2) by simp
  have 1: "faceTrackingEnabled s \<and> faceLandmarker inp = Some Throws \<Longrightarrow> r1 \<noteq> None"
    using st(1) by (auto simp: face_tracking_def)
  have 2: "bodyTrackingEnabled s \<and> poseLandmarker inp = Some Throws \<Longrightarrow> r2 \<noteq> None"
    using st(2) by (auto simp: pose_tracking_def)
  have 3: "handTrackingEnabled s \<and> handLandmarker inp = Some Throws \<Longrightarrow> l3 = l2"
    using st(3) by (auto simp: hand_tracking_def)
  show ?thesis
    using assms(1) st(4) h1 h2 1 2 3
    by (auto simp: detector_throws_def split: option.splits)
qed

lemma face_tracking_only_face:
  "face_tracking s (inp\<lparr>poseLandmarker := p, handLandmarker := h\<rparr>) l = face_tracking s inp l"
  by (simp add: face_tracking_def)

lemma tick_runs_detectors:
  "tick_runs (inp\<lparr>poseLandmarker := p, handLandmarker := h\<rparr>) = tick_runs inp"
  by (simp add: tick_runs_def)

text \<open>
  Claim C4 as amended: when the detector of an enabled modality throws during a tick,
  nothing is published. The detection status and the pose of the frame stay those of
  the previous tick, also when a face or a pose was detected before the throw; the
  frame keeps its face and hands objects, and the hand entries are untouched (the hand
  loop is not reached). What the face block wrote into the face object before the throw
  stays written, because the published frame shares that object: the published face is
  the one the tick would publish with no pose and no hand detector. The error is logged
  and the next frame is requested, so the failure is never fatal to the loop.
\<close>

theorem C4_throw_publishes_nothing:
  assumes "tick_runs inp" and "detector_throws s inp"
  shows "detectionStatus (predict s inp st) = detectionStatus st \<and>
         pose (trackingData (predict s inp st)) = pose (trackingData st) \<and>
         face (trackingData (predict s inp st)) = face (trackingData st) \<and>
         hands (trackingData (predict s inp st)) = hands (trackingData st) \<and>
         published_hands (predict s inp st) = published_hands st \<and>
         published_face (predict s inp st) =
           published_face (predict s (inp\<lparr>poseLandmarker := None, handLandmarker := None\<rparr>) st) \<and>
         errors_logged (predict s inp st) = Suc (errors_logged st) \<and>
         frames_requested (predict s inp st) = Suc (frames_requested st)"
proof -
  have "trackingData (predict s inp st) = trackingData st \<and>
        detectionStatus (predict s inp st) = detectionStatus st \<and>
        errors_logged (predict s inp st) = Suc (errors_logged st) \<and>
        frames_requested (predict s inp st) = Suc (frames_requested st)"
    using assms(1) try_block_throws[OF assms(2), of "trackingData st" "start st"]
    by (auto simp: predict_cases request_frame_def split: prod.splits option.splits)
  moreover have "published_face (predict s inp st) =
           published_face (predict s (inp\<lparr>poseLandmarker := None, handLandmarker := None\<rparr>) st)"
    by (simp add: published_face_predict face_tracking_only_face tick_runs_detectors)
  moreover have "published_hands (predict s inp st) = published_hands st"
    using try_block_throws_hands[OF assms(2), of "trackingData st" "start st"]
    by (simp add: published_hands_predict) (simp add: start_def published_hands_def)
  ultimately show ?thesis by simp
qed

theorem C4_throw_publishes_nothing_witness:
  "tick_runs (tick (face_seen (1/3) jaw_half) (Some Throws) (hands_seen [])) \<and>
   detector_throws default_settings (tick (face_seen (1/3) jaw_half) (Some Throws) (hands_seen [])) \<and>
   detectionStatus
     (predict default_settings (tick (face_seen (1/3) jaw_half) (Some Throws) (hands_seen []))
        initial_state) = no_detection \<and>
   pose (trackingData
     (predict default_settings (tick (face_seen (1/3) jaw_half) (Some Throws) (hands_seen []))
        initial_state)) = pose (trackingData initial_state) \<and>
   published_rotation initial_state = \<lparr>vx = 0, vy = 0, vz = 0\<rparr> \<and>
   published_rotation
     (predict default_settings (tick (face_seen (1/3) jaw_half) (Some Throws) (hands_seen []))
        initial_state) = \<lparr>vx = 0, vy = 10, vz = 0\<rparr> \<and>
   errors_logged
     (predict default_settings (tick (face_seen (1/3) jaw_half) (Some Throws) (hands_seen []))
        initial_state) = 1 \<and>
   frames_requested
     (predict default_settings (tick (face_seen (1/3) jaw_half) (Some Throws) (hands_seen []))
        initial_state) = 1"
proof -
  let ?inp = "tick (face_seen (1/3) jaw_half) (Some Throws) (hands_seen [])"
  have r: "tick_runs ?inp"
    by (simp add: tick_runs_def tick_def)
  have t: "detector_throws default_settings ?inp"
    by (simp add: detector_throws_def tick_def default_settings_def)
  have f: "published_rotation
             (predict default_settings (?inp\<lparr>poseLandmarker := None, handLandmarker := None\<rparr>)
                initial_state) = \<lparr>vx = 0, vy = 10, vz = 0\<rparr>"
    by (simp add: tick_eval)
  have z: "published_rotation initial_state = \<lparr>vx = 0, vy = 0, vz = 0\<rparr>"
    by (simp add: published_rotation_def published_face_def initial_state_def zero3_def)
  show ?thesis
    using r t f z C4_throw_publishes_nothing[OF r t, of initial_state]
    by (simp add: initial_state_def published_rotation_def)
qed

subsection \<open>Holding the head rotation\<close>

text \<open>Numerically, one smoothing assignment on doubles is the interpolation on reals.\<close>

lemma d_val_Num: "d_val (Num r) = r" and d_val_NegZero: "d_val NegZero = 0"
  by (simp_all add: d_val_def)

lemma d_val_add: "d_val (d_add a b) = d_val a + d_val b"
  by (simp add: d_add_def d_val_Num d_val_NegZero)

lemma d_val_sub: "d_val (d_sub a b) = d_val a - d_val b"
  by (simp add: d_sub_def d_val_Num d_val_NegZero)

lemma d_val_mul: "d_val (d_mul a b) = d_val a * d_val b"
  by (simp only: d_mul_def d_val_Num d_val_NegZero if_distrib[of d_val] split: if_splits) simp

lemma smooth_axis_val:
  "d_val (smooth_axis smooth p n) =
     (if 0 < d_val smooth then lerp (d_val p) (d_val n) (1 - d_val smooth) else d_val n)"
  by (simp add: smooth_axis_def lerp_d_def lerp_def d_val_add d_val_sub d_val_mul d_val_Num)

lemma lerp_d_same:
  "lerp_d v v t = (if v = NegZero \<and> \<not> d_negative t then Num 0 else v)"
  by (cases v; cases t)
     (auto simp: lerp_d_def d_add_def d_mul_def d_sub_def d_val_def d_negative_def)

text \<open>
  Claim C5 says that on a tick on which no face is detected the published head rotation
  is byte-for-byte the previous tick's, for every smoothing factor in [0,1): held,
  never recomputed. Counterexample: the held value of an axis is the negative zero (a
  mirrored zero pitch or roll, stored while the smoothing factor was 0) and the
  smoothing factor is 0.5. No face is detected, so both reads of the smoothing block
  return the held value, and the block stores \<open>lerp(-0, -0, 0.5)\<close>, the positive zero.
\<close>

theorem C5_negative_zero_counterexample:
  "0 < d_val (Num 0.5) \<and> d_val (Num 0.5) < 1 \<and>
   smooth_axis (Num 0.5) NegZero NegZero = Num 0 \<and>
   Num 0 \<noteq> NegZero"
  by (simp add: smooth_axis_def lerp_d_same d_val_def d_negative_def d_sub_def)

text \<open>
  Claim C5 as amended: on a tick on which no face is detected, the head rotation of the
  published frame is numerically equal to the previous tick's on all three axes, for
  every smoothing factor: it is held, not re-estimated and not reset to zero. When the
  smoothing factor is positive the smoothing block still recomputes each axis from the
  held value; the result is the same double unless the held value is the negative
  zero, which becomes the positive zero. With a smoothing factor of zero the axis is
  not touched.
\<close>

theorem C5_rotation_held:
  "(\<not> face_detected s inp \<longrightarrow>
      published_rotation (predict s inp st) = published_rotation st) \<and>
   d_val (smooth_axis smooth v v) = d_val v \<and>
   (v \<noteq> NegZero \<longrightarrow> smooth_axis smooth v v = v) \<and>
   (\<not> 0 < d_val smooth \<longrightarrow> smooth_axis smooth v v = v)"
proof (intro conjI impI)
  assume n: "\<not> face_detected s inp"
  show "published_rotation (predict s inp st) = published_rotation st"
    using face_tracking_not_detected[OF n, of "start st"]
    by (simp add: published_rotation_def published_face_predict)
       (simp add: start_def published_face_def)
next
  show "d_val (smooth_axis smooth v v) = d_val v"
    by (simp add: smooth_axis_def lerp_d_same d_val_def)
next
  assume "v \<noteq> NegZero"
  then show "smooth_axis smooth v v = v"
    by (simp add: smooth_axis_def lerp_d_same)
next
  assume "\<not> 0 < d_val smooth"
  then show "smooth_axis smooth v v = v"
    by (simp add: smooth_axis_def)
qed

theorem C5_rotation_held_witness:
  "\<not> face_detected default_settings nothing_seen \<and>
   published_rotation (predict default_settings nothing_seen after_turn)
     = \<lparr>vx = 0, vy = 10, vz = 0\<rparr> \<and>
   Num 10 \<noteq> NegZero \<and> smooth_axis (Num 0.5) (Num 10) (Num 10) = Num 10 \<and>
   \<not> 0 < d_val (Num 0) \<and> smooth_axis (Num 0) NegZero NegZero = NegZero"
proof -
  have h: "\<not> face_detected default_settings nothing_seen"
    by (simp add: face_detected_def nothing_seen_def tick_def no_face_def present_def)
  have z: "\<not> 0 < d_val (Num 0)" by (simp add: d_val_def)
  show ?thesis
    using h z after_turn_eq(1)
      C5_rotation_held[of default_settings nothing_seen after_turn "Num 0.5" "Num 10"]
      C5_rotation_held[of default_settings nothing_seen after_turn "Num 0" NegZero]
    by simp
qed

subsection \<open>Auto-blink\<close>




subsection \<open>Mouth-open fusion\<close>

text \<open>
  Claim C7: the effect writes a weight to \<open>aa\<close> exactly when lip sync is enabled (and
  the face block reaches the expressions), and the weight is
  \<open>max(jawOpen, micLevel) * lipSyncSensitivity\<close>, a missing \<open>jawOpen\<close> counting as 0. In
  particular \<open>mouthOpen(0.2, 0.6, 0.7) = 0.42\<close>, and for a fixed non-negative
  sensitivity the result does not decrease when \<open>max(trackingMouth, micLevel)\<close> grows.
\<close>

theorem C7_mouth_open:
  "((Expression ''aa'' v \<in> set (fst (useVRMAnimation (Some vrm) h td mt s micLevel nb ni))) =
      (faceTrackingEnabled s \<and> has_expressionManager vrm \<and> lipSyncEnabled s \<and>
       v = max (jaw_score (blendShapes (face_heap h (face td)))) micLevel * lipSyncSensitivity s)) \<and>
   mouthOpen 0.2 0.6 0.7 = 0.42 \<and>
   (0 \<le> sensitivity \<and> max a b \<le> max a' b' \<longrightarrow>
      mouthOpen a b sensitivity \<le> mouthOpen a' b' sensitivity)"
proof (intro conjI impI)
  let ?W = "fst (useVRMAnimation (Some vrm) h td mt s micLevel nb ni)"
  let ?f = "face_heap h (face td)"
  have "(Expression ''aa'' v \<in> set ?W) = (Expression ''aa'' v \<in> set (apply_face vrm ?f s micLevel))"
    using effect_writes[of vrm h td mt s micLevel nb ni]
      effect_writes_face_pose[of vrm h td s micLevel mt nb ni]
      transform_no_expression[of "''aa''" v mt] pose_no_expression[of "''aa''" v vrm "pose td" s]
      hands_no_expression[of "''aa''" v vrm "hands_heap h (hands td)" s]
      idle_no_expression[of "''aa''" v vrm s ni]
      auto_blink_expression[of "''aa''" v vrm ?f s nb]
    by auto
  then show "(Expression ''aa'' v \<in> set ?W) =
      (faceTrackingEnabled s \<and> has_expressionManager vrm \<and> lipSyncEnabled s \<and>
       v = max (jaw_score (blendShapes ?f)) micLevel * lipSyncSensitivity s)"
    by (simp add: aa_in_face mouthOpen_def)
next
  show "mouthOpen 0.2 0.6 0.7 = 0.42" by (simp add: mouthOpen_def)
next
  assume "0 \<le> sensitivity \<and> max a b \<le> max a' b'"
  then show "mouthOpen a b sensitivity \<le> mouthOpen a' b' sensitivity"
    by (simp add: mouthOpen_def mult_right_mono)
qed

theorem C7_mouth_open_witness:
  "(0::real) \<le> 0.7 \<and> max 0.2 0.6 \<le> max 0.9 (0.1::real) \<and>
   mouthOpen 0.2 0.6 0.7 \<le> mouthOpen 0.9 0.1 0.7 \<and>
   Expression ''aa'' (max 0.5 0.6 * 0.7) \<in>
     set (fst (useVRMAnimation (Some full_rig) (mem after_jaw) (trackingData after_jaw)
                 default_transform default_settings 0.6 0 0))"
proof -
  have h: "(0::real) \<le> 0.7 \<and> max 0.2 0.6 \<le> max 0.9 (0.1::real)" by simp
  have j: "jaw_score (blendShapes (face_heap (mem after_jaw) (face (trackingData after_jaw)))) = 0.5"
    using after_jaw_eq(1) by (simp add: jaw_score_def published_face_def)
  have e: "faceTrackingEnabled default_settings \<and> has_expressionManager full_rig \<and>
           lipSyncEnabled default_settings \<and> lipSyncSensitivity default_settings = 0.7"
    by (simp add: default_settings_def full_rig_def)
  show ?thesis
    using h j e
      C7_mouth_open[of "max 0.5 0.6 * 0.7" full_rig "mem after_jaw" "trackingData after_jaw"
        default_transform default_settings "0.6" 0 0 "0.7" "0.2" "0.6" "0.9" "0.1"]
    by simp
qed

subsection \<open>Shoulders and elbows\<close>

lemma pose_tracking_not_detected:
  "\<not> pose_detected s inp \<Longrightarrow> snd (pose_tracking s inp l) = l"
  by (auto simp: pose_detected_def present_def pose_tracking_def
           split: option.splits detection.splits list.splits)

text \<open>A tick that detects no pose leaves the pose of the frame as it was.\<close>

lemma pose_held:
  assumes "\<not> pose_detected s inp"
  shows "pose (trackingData (predict s inp st)) = pose (trackingData st)"
proof -
  have "face (trackingData st) = face (newTrackingData (start st))" by (simp add: start_def)
  then obtain r1 l1 r2 l2 r3 l3 where st:
    "face_tracking s inp (start st) = (r1, l1)"
    "pose_tracking s inp l1 = (r2, l2)"
    "hand_tracking s inp l2 = (r3, l3)"
    "try_block s inp (trackingData st) (start st) =
       (case r1 of Some e \<Rightarrow> (Some e, l1) | None \<Rightarrow>
          (case r2 of Some e \<Rightarrow> (Some e, l2) | None \<Rightarrow> (r3, l3)))"
    by (rule try_block_steps)
  have n1: "newTrackingData l1 = trackingData st"
    using face_tracking_refs(1)[of s inp "start st"] st(1) by (simp add: start_def)
  have n2: "l2 = l1"
    using pose_tracking_not_detected[OF assms, of l1] st(2) by simp
  have n3: "newTrackingData l3 = newTrackingData l2"
    using hand_tracking_refs(1)[of s inp l2] st(3) by simp
  show ?thesis
    using st(4) n1 n2 n3
    by (auto simp: predict_cases request_frame_def split: option.splits)
qed

text \<open>
  Claim C8 says that the applier skips a side with no detected pose on the tick, writing
  no shoulder or elbow rotation for it. Counterexample: on the very first tick the pose
  detector returns no pose; the effect run on the published frame still writes the left
  upper arm, from the frame's initial all-zero positions.
\<close>

theorem C8_arm_written_without_pose_counterexample:
  "\<not> pose_detected default_settings nothing_seen \<and>
   \<not> poseDetected (detectionStatus after_no_pose) \<and>
   BoneRotation ''leftUpperArm'' AxisZ (- (pi / 2)) \<in>
     set (fst (useVRMAnimation (Some full_rig) (mem after_no_pose) (trackingData after_no_pose)
                 default_transform default_settings 0 0 0))"
proof -
  have "BoneRotation ''leftUpperArm'' AxisZ (- (pi / 2)) \<in>
          set (apply_pose full_rig (pose (trackingData after_no_pose)) default_settings)"
    by (simp add: after_no_pose_eq(2) initial_state_def apply_pose_def default_settings_def
          full_rig_def zero2_def atan2_def)
  then have "BoneRotation ''leftUpperArm'' AxisZ (- (pi / 2)) \<in>
     set (fst (useVRMAnimation (Some full_rig) (mem after_no_pose) (trackingData after_no_pose)
                 default_transform default_settings 0 0 0))"
    using effect_writes_face_pose[of full_rig "mem after_no_pose" "trackingData after_no_pose"
            default_settings 0 default_transform 0 0]
    by blast
  moreover have "\<not> pose_detected default_settings nothing_seen"
    by (simp add: pose_detected_def nothing_seen_def tick_def no_pose_def present_def)
  ultimately show ?thesis using after_no_pose_eq(1) by simp
qed

text \<open>
  Claim C8 as amended: shoulder and elbow rotations are applied independently per
  bone. On every run of the effect, each of the four arm bones is written if and only
  if body tracking is enabled, the rig has a humanoid and the rig has that bone, and
  then with the angle computed from the pose positions the frame holds, whether or not
  a pose was detected on the tick: the applier has no detection gate, and the only
  thing it skips is a bone the rig lacks.
\<close>

theorem C8_arm_bones_written:
  "((BoneRotation ''leftUpperArm'' ax r \<in>
       set (fst (useVRMAnimation (Some vrm) h td mt s micLevel nb ni))) =
      (bodyTrackingEnabled s \<and> has_humanoid vrm \<and> ''leftUpperArm'' \<in> bone_nodes vrm \<and>
       ax = AxisZ \<and>
       r = atan2 (uy (left (elbows (pose td))) - uy (left (shoulders (pose td))))
                 (ux (left (elbows (pose td))) - ux (left (shoulders (pose td)))) - pi / 2)) \<and>
   ((BoneRotation ''rightUpperArm'' ax r \<in>
       set (fst (useVRMAnimation (Some vrm) h td mt s micLevel nb ni))) =
      (bodyTrackingEnabled s \<and> has_humanoid vrm \<and> ''rightUpperArm'' \<in> bone_nodes vrm \<and>
       ax = AxisZ \<and>
       r = atan2 (uy (right (elbows (pose td))) - uy (right (shoulders (pose td))))
                 (ux (right (elbows (pose td))) - ux (right (shoulders (pose td)))) - pi / 2)) \<and>
   ((BoneRotation ''leftLowerArm'' ax r \<in>
       set (fst (useVRMAnimation (Some vrm) h td mt s micLevel nb ni))) =
      (bodyTrackingEnabled s \<and> has_humanoid vrm \<and> ''leftLowerArm'' \<in> bone_nodes vrm \<and>
       ax = AxisZ \<and>
       r = atan2 (uy (left (wrists (pose td))) - uy (left (elbows (pose td))))
                 (ux (left (wrists (pose td))) - ux (left (elbows (pose td)))))) \<and>
   ((BoneRotation ''rightLowerArm'' ax r \<in>
       set (fst (useVRMAnimation (Some vrm) h td mt s micLevel nb ni))) =
      (bodyTrackingEnabled s \<and> has_humanoid vrm \<and> ''rightLowerArm'' \<in> bone_nodes vrm \<and>
       ax = AxisZ \<and>
       r = atan2 (uy (right (wrists (pose td))) - uy (right (elbows (pose td))))
                 (ux (right (wrists (pose td))) - ux (right (elbows (pose td))))))"
proof (intro conjI)
  show "(BoneRotation ''leftUpperArm'' ax r \<in>
       set (fst (useVRMAnimation (Some vrm) h td mt s micLevel nb ni))) =
      (bodyTrackingEnabled s \<and> has_humanoid vrm \<and> ''leftUpperArm'' \<in> bone_nodes vrm \<and>
       ax = AxisZ \<and>
       r = atan2 (uy (left (elbows (pose td))) - uy (left (shoulders (pose td))))
                 (ux (left (elbows (pose td))) - ux (left (shoulders (pose td)))) - pi / 2)"
    by (subst arm_bone_writes) (auto simp: apply_pose_def)
next
  show "(BoneRotation ''rightUpperArm'' ax r \<in>
       set (fst (useVRMAnimation (Some vrm) h td mt s micLevel nb ni))) =
      (bodyTrackingEnabled s \<and> has_humanoid vrm \<and> ''rightUpperArm'' \<in> bone_nodes vrm \<and>
       ax = AxisZ \<and>
       r = atan2 (uy (right (elbows (pose td))) - uy (right (shoulders (pose td))))
                 (ux (right (elbows (pose td))) - ux (right (shoulders (pose td)))) - pi / 2)"
    by (subst arm_bone_writes) (auto simp: apply_pose_def)
next
  show "(BoneRotation ''leftLowerArm'' ax r \<in>
       set (fst (useVRMAnimation (Some vrm) h td mt s micLevel nb ni))) =
      (bodyTrackingEnabled s \<and> has_humanoid vrm \<and> ''leftLowerArm'' \<in> bone_nodes vrm \<and>
       ax = AxisZ \<and>
       r = atan2 (uy (left (wrists (pose td))) - uy (left (elbows (pose td))))
                 (ux (left (wrists (pose td))) - ux (left (elbows (pose td)))))"
    by (subst arm_bone_writes) (auto simp: apply_pose_def)
next
  show "(BoneRotation ''rightLowerArm'' ax r \<in>
       set (fst (useVRMAnimation (Some vrm) h td mt s micLevel nb ni))) =
      (bodyTrackingEnabled s \<and> has_humanoid vrm \<and> ''rightLowerArm'' \<in> bone_nodes vrm \<and>
       ax = AxisZ \<and>
       r = atan2 (uy (right (wrists (pose td))) - uy (right (elbows (pose td))))
                 (ux (right (wrists (pose td))) - ux (right (elbows (pose td)))))"
    by (subst arm_bone_writes) (auto simp: apply_pose_def)
qed

theorem C8_arm_bones_written_witness:
  "BoneRotation ''rightLowerArm'' AxisZ 0 \<in>
     set (fst (useVRMAnimation (Some full_rig) (mem after_no_pose) (trackingData after_no_pose)
                 default_transform default_settings 0 0 0)) \<and>
   BoneRotation ''rightLowerArm'' AxisZ 0 \<notin>
     set (fst (useVRMAnimation (Some (full_rig\<lparr>bone_nodes := {''head''}\<rparr>)) (mem after_no_pose)
                 (trackingData after_no_pose) default_transform default_settings 0 0 0))"
  using C8_arm_bones_written[of AxisZ 0 full_rig "mem after_no_pose" "trackingData after_no_pose"
          default_transform default_settings 0 0 0]
        C8_arm_bones_written[of AxisZ 0 "full_rig\<lparr>bone_nodes := {''head''}\<rparr>" "mem after_no_pose"
          "trackingData after_no_pose" default_transform default_settings 0 0 0]
  by (simp add: after_no_pose_eq(2) initial_state_def default_settings_def full_rig_def
        zero2_def atan2_def)

subsection \<open>Blend shapes that are not delivered\<close>

text \<open>
  Claim C9 says that on a tick on which the face detector provides no blend shapes the
  published mapping is empty, so that every score read from it is 0, never the mapping
  of an earlier tick. Counterexample: one tick delivers \<open>jawOpen = 0.5\<close>, on the next
  the face is out of view and the detector returns no blend shapes; the second tick
  still publishes \<open>jawOpen = 0.5\<close>, and the score read downstream is 0.5.
\<close>

theorem C9_stale_blendShapes_counterexample:
  "\<not> blendshapes_delivered default_settings nothing_seen \<and>
   blendShapes (published_face
      (predict default_settings nothing_seen after_jaw)) ''jawOpen''
     = Some 0.5 \<and>
   num_or (blendShapes (published_face
      (predict default_settings nothing_seen after_jaw)) ''jawOpen'') 0
     = 0.5"
  using after_jaw_eq
  by (simp add: tick_eval blendshapes_delivered_def present_def num_or_def)

text \<open>
  Claim C9 as amended: on a tick on which the face detector delivers no blend shapes,
  the blend-shape mapping of the published frame is the mapping of the previous tick's
  frame, unchanged.
\<close>

theorem C9_blendShapes_held:
  assumes "\<not> blendshapes_delivered s inp"
  shows "blendShapes (published_face (predict s inp st)) = blendShapes (published_face st)"
  using face_tracking_blendShapes[OF assms, of "start st" "face (trackingData st)"]
  by (simp add: published_face_predict) (simp add: start_def published_face_def)

theorem C9_blendShapes_held_witness:
  "\<not> blendshapes_delivered default_settings (face_tick 0.5 (Some [])) \<and>
   blendShapes (published_face (predict default_settings (face_tick 0.5 (Some [])) after_jaw))
     = [''jawOpen'' \<mapsto> 0.5]"
proof -
  have h: "\<not> blendshapes_delivered default_settings (face_tick 0.5 (Some []))"
    by (simp add: blendshapes_delivered_def face_tick_def tick_def face_seen_def present_def)
  show ?thesis
    using h C9_blendShapes_held[OF h, of after_jaw] after_jaw_eq(1) by simp
qed

subsection \<open>The blink interval in effect\<close>

text \<open>
  Claim C10: a falsy \<open>blinkInterval\<close> (zero or absent) is replaced by 4 before the
  remainder is taken, so for every tick time (the exact quotient as well as the double
  the code computes) and every settings value the divisor is not zero and the remainder
  is a number.
\<close>

theorem C10_blink_interval_nonzero:
  "(falsy (blinkInterval s) \<longrightarrow> effective_blinkInterval s = 4) \<and>
   effective_blinkInterval s \<noteq> 0 \<and>
   js_rem (of_int \<lfloor>real now / 1000\<rfloor>) (effective_blinkInterval s) \<noteq> None \<and>
   js_rem (of_int \<lfloor>tick_time now\<rfloor>) (effective_blinkInterval s) \<noteq> None"
  by (auto simp: effective_blinkInterval_def num_or_def falsy_def js_rem_def split: option.splits)

theorem C10_blink_interval_nonzero_witness:
  "falsy (blinkInterval (default_settings\<lparr>blinkInterval := Some 0\<rparr>)) \<and>
   effective_blinkInterval (default_settings\<lparr>blinkInterval := Some 0\<rparr>) = 4 \<and>
   falsy (blinkInterval (default_settings\<lparr>blinkInterval := None\<rparr>)) \<and>
   effective_blinkInterval (default_settings\<lparr>blinkInterval := None\<rparr>) = 4 \<and>
   js_rem (of_int \<lfloor>real 8100 / 1000\<rfloor>)
     (effective_blinkInterval (default_settings\<lparr>blinkInterval := None\<rparr>)) \<noteq> None"
proof -
  have f: "falsy (blinkInterval (default_settings\<lparr>blinkInterval := Some 0\<rparr>))"
          "falsy (blinkInterval (default_settings\<lparr>blinkInterval := None\<rparr>))"
    by (simp_all add: falsy_def)
  show ?thesis
    using f C10_blink_interval_nonzero[of "default_settings\<lparr>blinkInterval := Some 0\<rparr>" 8100]
      C10_blink_interval_nonzero[of "default_settings\<lparr>blinkInterval := None\<rparr>" 8100]
    by blast
qed

end
